theory Spec2Isabelle
  imports Complex_Main "HOL-Library.AList"
begin

section \<open>JavaScript values\<close>

text \<open>
  The script handles untyped JavaScript values: message payloads, the publisher
  configuration, thrown exceptions. Numbers are IEEE doubles; the script only tests
  them for truthiness, compares them with zero and converts them to strings, so a
  finite double is represented by the rational it denotes (negative zero coincides
  with zero, which all three operations treat alike). Strings are byte lists in
  UTF-8. Objects are plain objects, given as association lists from property names
  to values, the first binding of a name being the one that counts. Of the
  inherited properties only the two conversion methods \<open>toString\<close> and
  \<open>valueOf\<close> are modelled, where a value is converted to a string; none of the
  names the script reads (\<open>message\<close>, \<open>action\<close>, \<open>adId\<close>, \<open>adUnitCode\<close>,
  \<open>height\<close>, \<open>enabled\<close>, \<open>slots\<close>, \<open>resizeFunction\<close>, \<open>targetId\<close>) is a
  property of a built-in prototype, and a slot configuration found there or among
  the index properties of a string would have neither a \<open>height\<close> nor a
  \<open>resizeFunction\<close>. Functions, DOM elements and window proxies are references.
  Symbols and accessor properties are outside the value model.
\<close>

datatype jsnum = NaN | PosInf | NegInf | Fin rat

datatype jsval =
    Undefined
  | Null
  | Bool bool
  | Num jsnum
  | Str string
  | Obj "(string \<times> jsval) list"
  | Arr "jsval list"
  | Fun nat
  | Elem nat
  | Win nat

text \<open>A completion: a returned value or a thrown one.\<close>

datatype 'a res = Ok 'a | Throw jsval

fun truthy :: "jsval \<Rightarrow> bool" where
  "truthy Undefined = False"
| "truthy Null = False"
| "truthy (Bool b) = b"
| "truthy (Num NaN) = False"
| "truthy (Num PosInf) = True"
| "truthy (Num NegInf) = True"
| "truthy (Num (Fin q)) = (q \<noteq> 0)"
| "truthy (Str s) = (s \<noteq> [])"
| "truthy (Obj kvs) = True"
| "truthy (Arr xs) = True"
| "truthy (Fun f) = True"
| "truthy (Elem e) = True"
| "truthy (Win w) = True"

fun typeof :: "jsval \<Rightarrow> string" where
  "typeof Undefined = ''undefined''"
| "typeof Null = ''object''"
| "typeof (Bool b) = ''boolean''"
| "typeof (Num n) = ''number''"
| "typeof (Str s) = ''string''"
| "typeof (Obj kvs) = ''object''"
| "typeof (Arr xs) = ''object''"
| "typeof (Fun f) = ''function''"
| "typeof (Elem e) = ''object''"
| "typeof (Win w) = ''object''"

fun is_primitive :: "jsval \<Rightarrow> bool" where
  "is_primitive Undefined = True"
| "is_primitive Null = True"
| "is_primitive (Bool b) = True"
| "is_primitive (Num n) = True"
| "is_primitive (Str s) = True"
| "is_primitive v = False"

text \<open>\<open>n > 0\<close> on a number: false for \<open>NaN\<close>.\<close>

fun num_gt0 :: "jsnum \<Rightarrow> bool" where
  "num_gt0 NaN = False"
| "num_gt0 PosInf = True"
| "num_gt0 NegInf = False"
| "num_gt0 (Fin q) = (0 < q)"

text \<open>\<open>typeof v === 'number' && v > 0\<close>.\<close>

fun positive_number :: "jsval \<Rightarrow> bool" where
  "positive_number (Num n) = num_gt0 n"
| "positive_number v = False"

text \<open>\<open>a || b\<close> and \<open>a && b\<close>.\<close>

definition js_or :: "jsval \<Rightarrow> jsval \<Rightarrow> jsval" where
  "js_or a b = (if truthy a then a else b)"

definition js_and :: "jsval \<Rightarrow> jsval \<Rightarrow> jsval" where
  "js_and a b = (if truthy a then b else a)"

text \<open>\<open>typeof v === 'function'\<close>, with the function.\<close>

fun fun_ref :: "jsval \<Rightarrow> nat option" where
  "fun_ref (Fun f) = Some f"
| "fun_ref v = None"

text \<open>\<open>try { body } catch (e) { handler }\<close>, for a body that changes nothing.\<close>

definition try_catch :: "'a res \<Rightarrow> (jsval \<Rightarrow> 'a res) \<Rightarrow> 'a res" where
  "try_catch body handler = (case body of Ok v \<Rightarrow> Ok v | Throw e \<Rightarrow> handler e)"

subsection \<open>Decimal digits, \<open>parseInt\<close>\<close>

definition digit_char :: "nat \<Rightarrow> char" where
  "digit_char d = ''0123456789'' ! (d mod 10)"

function nat_str :: "nat \<Rightarrow> string" where
  "nat_str n = (if n < 10 then [digit_char n] else nat_str (n div 10) @ [digit_char n])"
  by pat_completeness auto
termination
  by (relation "measure (\<lambda>n. n)") auto

declare nat_str.simps [simp del]

definition int_str :: "int \<Rightarrow> string" where
  "int_str i = (if i < 0 then CHR ''-'' # nat_str (nat (- i)) else nat_str (nat i))"

definition is_ws :: "char \<Rightarrow> bool" where
  "is_ws c = (c \<in> set [CHR 0x09, CHR 0x0A, CHR 0x0B, CHR 0x0C, CHR 0x0D, CHR 0x20])"

definition is_digit :: "char \<Rightarrow> bool" where
  "is_digit c = (c \<in> set ''0123456789'')"

definition digit_val :: "char \<Rightarrow> nat" where
  "digit_val c = of_char c - 48"

definition digits_val :: "string \<Rightarrow> nat" where
  "digits_val ds = foldl (\<lambda>a c. 10 * a + digit_val c) 0 ds"

text \<open>
  \<open>parseInt(s, 10)\<close>: leading white space is skipped (the ASCII white space
  characters; the others do not occur in a computed height), a sign is read, then
  the longest run of decimal digits; no digit gives \<open>NaN\<close>. The rounding of an
  integer beyond \<open>2^53\<close> to the nearest double is not modelled.
\<close>

definition parseInt :: "string \<Rightarrow> jsnum" where
  "parseInt s =
     (let s1 = dropWhile is_ws s;
          neg = (s1 \<noteq> [] \<and> hd s1 = CHR ''-'');
          s2 = (if s1 \<noteq> [] \<and> (hd s1 = CHR ''-'' \<or> hd s1 = CHR ''+'') then tl s1 else s1);
          ds = takeWhile is_digit s2
      in if ds = [] then NaN
         else Fin (of_int (if neg then - int (digits_val ds) else int (digits_val ds))))"

section \<open>The page: document, globals, console\<close>

text \<open>
  The document is the list of its elements in tree order; an element is referred
  to by its position, which the script never changes (it neither inserts nor
  removes elements). An element's parent precedes it in tree order.
  \<open>styleAttr\<close> is the text of the \<open>style\<close> attribute (empty when there is none),
  \<open>inlineStyle\<close> the declarations of the element's \<open>style\<close> object; on a page
  as the browser holds it the second is the first parsed, and a write through
  the \<open>style\<close> object replaces the attribute by the serialisation of the
  declarations. \<open>computedHeight\<close> is what the layout engine answers
  for \<open>getComputedStyle(el).height\<close> when the handler runs (\<open>None\<close> when
  \<open>getComputedStyle\<close> gives no object); how layout reacts to the handler's own
  writes is not modelled. Reading \<open>contentWindow\<close> of a frame gives \<open>null\<close>, a
  window proxy, or raises.
\<close>

datatype cw = CwThrows jsval | CwNull | CwWindow nat

record element =
  localName :: string
  elemId :: string
  parentIx :: "nat option"
  styleAttr :: string
  inlineStyle :: "(string \<times> string) list"
  widthAttr :: "string option"
  heightAttr :: "string option"
  contentWindow :: cw
  computedHeight :: "string option"

text \<open>
  \<open>window.googletag\<close>: undefined (or falsy), an object whose \<open>pubads\<close> is not a
  function, an API whose \<open>pubads().getSlots()\<close> raises, or the list of slots.
  A slot gives its targeting (keys with their arrays of string values) and the id
  of its container; the calls on a broken slot raise. The calls of the API leave
  the page alone.
\<close>

datatype gpt_slot = BrokenSlot jsval | GptSlot "(string \<times> string list) list" string

datatype googletag_api =
  GptUndefined | GptNoPubads | GptThrows jsval | GptSlots "gpt_slot list"

text \<open>
  \<open>window.apntag\<close>: undefined (or falsy), an object whose \<open>getTag\<close> is not a
  function, an API whose \<open>getTag\<close> raises, or the tags, which \<open>getTag\<close> looks
  up under its argument as a property name.
\<close>

datatype apntag_api =
  ApnUndefined | ApnNoGetTag | ApnThrows jsval | ApnTags "(string \<times> jsval) list"

datatype level = Info | Warn | Error

text \<open>
  \<open>console\<close>: \<open>None\<close> when the global is undefined, otherwise which of its
  methods \<open>log\<close>, \<open>warn\<close>, \<open>error\<close> exist. \<open>consoleOut\<close> is what has been
  written: the level and the arguments of each call.
\<close>

record console_api =
  hasLog :: bool
  hasWarn :: bool
  hasError :: bool

record world =
  doc :: "element list"
  bodyIx :: "nat option"
  programmaticStretch :: jsval
  googletag :: googletag_api
  apntag :: apntag_api
  console :: "console_api option"
  consoleOut :: "(level \<times> string list) list"

text \<open>
  What the platform supplies: \<open>JSON.parse\<close> (which raises on malformed text);
  the behaviour of function values (called with a receiver and arguments on a
  page, a call may change the page and may raise); the string of a number that is
  not an integer of at most \<open>2^53\<close> in magnitude; the string conversion of
  functions, elements and window proxies (which may raise, as on a cross-origin
  window); and the CSS parser: for a property and a text, the value the \<open>style\<close>
  object stores, or \<open>None\<close> when the text is no valid value of the property and
  the assignment is dropped.
\<close>

record platform =
  JSON_parse :: "string \<Rightarrow> jsval res"
  call_fun :: "nat \<Rightarrow> jsval \<Rightarrow> jsval list \<Rightarrow> world \<Rightarrow> jsval res \<times> world"
  num_str :: "rat \<Rightarrow> string"
  host_str :: "jsval \<Rightarrow> string res"
  css_parse :: "string \<Rightarrow> string \<Rightarrow> string option"

section \<open>Conversion to a string\<close>

text \<open>A computation on the page that may raise.\<close>

type_synonym 'a action = "world \<Rightarrow> 'a res \<times> world"

definition then_do :: "'a action \<Rightarrow> ('a \<Rightarrow> 'b action) \<Rightarrow> 'b action" where
  "then_do m k w = (case m w of (Ok a, w1) \<Rightarrow> k a w1 | (Throw x, w1) \<Rightarrow> (Throw x, w1))"

text \<open>\<open>try { m } catch (e) { h }\<close>: what \<open>m\<close> did to the page before it raised stays.\<close>

definition catching :: "'a action \<Rightarrow> (jsval \<Rightarrow> 'a action) \<Rightarrow> 'a action" where
  "catching m h w = (case m w of (Ok a, w1) \<Rightarrow> (Ok a, w1) | (Throw x, w1) \<Rightarrow> h x w1)"

fun join_with :: "string \<Rightarrow> string list \<Rightarrow> string" where
  "join_with sep [] = []"
| "join_with sep [x] = x"
| "join_with sep (x # y # ys) = x @ sep @ join_with sep (y # ys)"

text \<open>The string of a number.\<close>

fun number_str :: "platform \<Rightarrow> jsnum \<Rightarrow> string" where
  "number_str pf NaN = ''NaN''"
| "number_str pf PosInf = ''Infinity''"
| "number_str pf NegInf = ''-Infinity''"
| "number_str pf (Fin q) =
     (if of_int \<lfloor>q\<rfloor> = q \<and> \<bar>q\<bar> \<le> 9007199254740992 then int_str \<lfloor>q\<rfloor> else num_str pf q)"

text \<open>The string of a primitive value (the last equation is never used).\<close>

fun prim_str :: "platform \<Rightarrow> jsval \<Rightarrow> string" where
  "prim_str pf Undefined = ''undefined''"
| "prim_str pf Null = ''null''"
| "prim_str pf (Bool b) = (if b then ''true'' else ''false'')"
| "prim_str pf (Num n) = number_str pf n"
| "prim_str pf (Str s) = s"
| "prim_str pf v = []"

text \<open>The \<open>TypeError\<close> of an object that cannot be converted to a primitive value.\<close>

definition TypeError :: jsval where
  "TypeError = Obj [(''name'', Str ''TypeError''),
                    (''message'', Str ''Cannot convert object to primitive value'')]"

text \<open>
  A conversion prefers \<open>toString\<close> where a string is wanted (a property name, an
  element id, an attribute value) and \<open>valueOf\<close> in a concatenation.
\<close>

datatype hint = HintString | HintDefault

fun method_order :: "hint \<Rightarrow> string list" where
  "method_order HintString = [''toString'', ''valueOf'']"
| "method_order HintDefault = [''valueOf'', ''toString'']"

text \<open>
  The conversion of a plain object to a primitive, then to a string: the methods
  are tried in order. A method is the object's own property of that name if it
  has one, and is skipped unless it is a function; a function is called on the
  object, and its result is taken if it is a primitive. The inherited \<open>toString\<close>
  gives \<open>[object Object]\<close>, the inherited \<open>valueOf\<close> gives the object itself,
  which is no primitive. When no method gives a primitive, a \<open>TypeError\<close> is
  raised.
\<close>

fun ordinary_to_primitive ::
    "platform \<Rightarrow> (string \<times> jsval) list \<Rightarrow> string list \<Rightarrow> string action" where
  "ordinary_to_primitive pf kvs [] w = (Throw TypeError, w)"
| "ordinary_to_primitive pf kvs (name # rest) w =
     (case map_of kvs name of
        Some (Fun f) \<Rightarrow>
          (case call_fun pf f (Obj kvs) [] w of
             (Throw x, w1) \<Rightarrow> (Throw x, w1)
           | (Ok r, w1) \<Rightarrow>
               if is_primitive r then (Ok (prim_str pf r), w1)
               else ordinary_to_primitive pf kvs rest w1)
      | Some v \<Rightarrow> ordinary_to_primitive pf kvs rest w
      | None \<Rightarrow>
          if name = ''toString'' then (Ok ''[object Object]'', w)
          else ordinary_to_primitive pf kvs rest w)"

text \<open>
  The conversion of any value. An array is the join of its elements, each
  converted in turn (\<open>null\<close> and \<open>undefined\<close> give the empty string).
\<close>

fun to_string :: "platform \<Rightarrow> hint \<Rightarrow> jsval \<Rightarrow> string action"
  and join_elements :: "platform \<Rightarrow> jsval list \<Rightarrow> string list action" where
  "to_string pf h Undefined w = (Ok (prim_str pf Undefined), w)"
| "to_string pf h Null w = (Ok (prim_str pf Null), w)"
| "to_string pf h (Bool b) w = (Ok (prim_str pf (Bool b)), w)"
| "to_string pf h (Num n) w = (Ok (prim_str pf (Num n)), w)"
| "to_string pf h (Str s) w = (Ok (prim_str pf (Str s)), w)"
| "to_string pf h (Obj kvs) w = ordinary_to_primitive pf kvs (method_order h) w"
| "to_string pf h (Arr xs) w =
     (case join_elements pf xs w of
        (Ok ss, w1) \<Rightarrow> (Ok (join_with '','' ss), w1)
      | (Throw x, w1) \<Rightarrow> (Throw x, w1))"
| "to_string pf h (Fun f) w = (host_str pf (Fun f), w)"
| "to_string pf h (Elem e) w = (host_str pf (Elem e), w)"
| "to_string pf h (Win n) w = (host_str pf (Win n), w)"
| "join_elements pf [] w = (Ok [], w)"
| "join_elements pf (x # xs) w =
     (case (if x = Undefined \<or> x = Null then (Ok [], w) else to_string pf HintString x w) of
        (Throw e, w1) \<Rightarrow> (Throw e, w1)
      | (Ok s, w1) \<Rightarrow>
          (case join_elements pf xs w1 of
             (Ok ss, w2) \<Rightarrow> (Ok (s # ss), w2)
           | (Throw e, w2) \<Rightarrow> (Throw e, w2)))"

text \<open>
  An array index as a property name: the canonical decimal numeral of a natural
  number.
\<close>

definition array_index :: "string \<Rightarrow> nat option" where
  "array_index k =
     (if k \<noteq> [] \<and> list_all is_digit k \<and> nat_str (digits_val k) = k
      then Some (digits_val k) else None)"

text \<open>\<open>v[k]\<close> on a value that is neither \<open>null\<close> nor \<open>undefined\<close>.\<close>

fun get_prop :: "jsval \<Rightarrow> string \<Rightarrow> jsval" where
  "get_prop (Obj kvs) k = (case map_of kvs k of Some v \<Rightarrow> v | None \<Rightarrow> Undefined)"
| "get_prop (Arr xs) k =
     (if k = ''length'' then Num (Fin (of_nat (length xs)))
      else case array_index k of
             Some i \<Rightarrow> (if i < length xs then xs ! i else Undefined)
           | None \<Rightarrow> Undefined)"
| "get_prop v k = Undefined"

section \<open>Constants\<close>

definition MESSAGE_CREATIVE :: string where
  "MESSAGE_CREATIVE = ''Prebid Creative''"

definition ACTION_PROGRAMMATIC_STRETCH :: string where
  "ACTION_PROGRAMMATIC_STRETCH = ''programmaticStretch''"

definition PREFIX :: string where
  "PREFIX = ''[ProgrammaticStretch]''"

section \<open>Resize logic\<close>

text \<open>
  \<open>getDimension(value)\<close>: \<open>value ? value + 'px' : '100%'\<close>. The concatenation
  converts the value to a string.
\<close>

definition getDimension :: "platform \<Rightarrow> jsval \<Rightarrow> string action" where
  "getDimension pf v w =
     (if truthy v
      then (case to_string pf HintDefault v w of
              (Ok s, w1) \<Rightarrow> (Ok (s @ ''px''), w1)
            | (Throw x, w1) \<Rightarrow> (Throw x, w1))
      else (Ok ''100%'', w))"

text \<open>\<open>window.getComputedStyle(iframe)\<close>, reduced to its \<open>height\<close>.\<close>

definition getComputedStyle :: "world \<Rightarrow> nat \<Rightarrow> string option" where
  "getComputedStyle w i = (if i < length (doc w) then computedHeight (doc w ! i) else None)"

text \<open>
  \<open>resolveHeight(slotCfg, data, iframe)\<close>; \<open>data\<close> is neither \<open>null\<close> nor
  \<open>undefined\<close> where the handler calls it. The result is a number or \<open>null\<close>.
\<close>

definition resolveHeight :: "world \<Rightarrow> jsval \<Rightarrow> jsval \<Rightarrow> nat option \<Rightarrow> jsval" where
  "resolveHeight w slotCfg data iframe =
     (if truthy slotCfg \<and> positive_number (get_prop slotCfg ''height'')
      then get_prop slotCfg ''height''
      else if positive_number (get_prop data ''height'')
      then get_prop data ''height''
      else case iframe of
             None \<Rightarrow> Null
           | Some i \<Rightarrow>
               (case getComputedStyle w i of
                  None \<Rightarrow> Null
                | Some hs \<Rightarrow> (let h = parseInt hs in if num_gt0 h then Num h else Null)))"

section \<open>Configuration helpers\<close>

definition getConfig :: "world \<Rightarrow> jsval" where
  "getConfig w = js_or (programmaticStretch w) (Obj [])"

text \<open>
  \<open>(cfg.slots && adUnitCode && cfg.slots[adUnitCode]) || null\<close>. The property
  access converts \<open>adUnitCode\<close> to a property name, which may raise.
\<close>

definition getSlotConfig :: "platform \<Rightarrow> jsval \<Rightarrow> jsval action" where
  "getSlotConfig pf adUnitCode w =
     (let cfg = getConfig w;
          slots = get_prop cfg ''slots''
      in if truthy slots
         then (if truthy adUnitCode
               then (case to_string pf HintString adUnitCode w of
                       (Ok k, w1) \<Rightarrow> (Ok (js_or (get_prop slots k) Null), w1)
                     | (Throw x, w1) \<Rightarrow> (Throw x, w1))
               else (Ok (js_or adUnitCode Null), w))
         else (Ok (js_or slots Null), w))"

section \<open>Document queries\<close>

definition parentElement :: "world \<Rightarrow> nat \<Rightarrow> nat option" where
  "parentElement w i =
     (if i < length (doc w)
      then (case parentIx (doc w ! i) of
              None \<Rightarrow> None
            | Some p \<Rightarrow> if p < i then Some p else None)
      else None)"

lemma parentElement_less: "parentElement w i = Some p \<Longrightarrow> p < i"
  by (auto simp: parentElement_def split: if_splits option.splits)

function is_descendant :: "world \<Rightarrow> nat \<Rightarrow> nat \<Rightarrow> bool" where
  "is_descendant w a i =
     (case parentElement w i of
        None \<Rightarrow> False
      | Some p \<Rightarrow> p = a \<or> is_descendant w a p)"
  by pat_completeness auto
termination
  by (relation "measure (\<lambda>(w, a, i). i)") (auto dest: parentElement_less)

declare is_descendant.simps [simp del]

fun contains :: "string \<Rightarrow> string \<Rightarrow> bool" where
  "contains sub [] = (sub = [])"
| "contains sub (c # cs) = (take (length sub) (c # cs) = sub \<or> contains sub cs)"

text \<open>\<open>document.querySelectorAll('iframe')\<close>, in tree order.\<close>

definition querySelectorAll_iframe :: "world \<Rightarrow> nat list" where
  "querySelectorAll_iframe w =
     filter (\<lambda>i. localName (doc w ! i) = ''iframe'') [0..<length (doc w)]"

text \<open>
  \<open>el.querySelector('iframe:not([style*="display: none"])')\<close>: the first iframe
  below \<open>el\<close> whose \<open>style\<close> attribute, as its text stands, does not contain
  \<open>display: none\<close>.
\<close>

definition querySelector_iframe :: "world \<Rightarrow> nat \<Rightarrow> nat option" where
  "querySelector_iframe w el =
     find (\<lambda>i. localName (doc w ! i) = ''iframe'' \<and> is_descendant w el i
               \<and> \<not> contains ''display: none'' (styleAttr (doc w ! i)))
          [0..<length (doc w)]"

text \<open>\<open>document.getElementById(id)\<close>: the first element in tree order with that id.\<close>

definition getElementById :: "world \<Rightarrow> string \<Rightarrow> nat option" where
  "getElementById w s =
     (if s = [] then None
      else find (\<lambda>i. elemId (doc w ! i) = s) [0..<length (doc w)])"

section \<open>Element lookup\<close>

text \<open>
  The message event, reduced to the fields the script reads. \<open>ev_source\<close> is
  \<open>Win n\<close> for a window proxy.
\<close>

record message_event =
  ev_data :: jsval
  ev_message :: jsval
  ev_source :: jsval

definition event_obj :: "message_event \<Rightarrow> jsval" where
  "event_obj ev =
     Obj [(''data'', ev_data ev), (''message'', ev_message ev), (''source'', ev_source ev)]"

text \<open>Reading \<open>iframes[i].contentWindow\<close>.\<close>

fun read_contentWindow :: "element \<Rightarrow> jsval res" where
  "read_contentWindow e =
     (case contentWindow e of
        CwThrows x \<Rightarrow> Throw x
      | CwNull \<Rightarrow> Ok Null
      | CwWindow n \<Rightarrow> Ok (Win n))"

text \<open>
  The loop of \<open>findIframeBySource\<close> over the frames still to visit. A frame's
  content window is \<open>null\<close> or a window proxy, on which \<open>===\<close> is equality.
  The body of each round is a \<open>try\<close> whose handler is empty.
\<close>

fun findIframeBySource_loop :: "world \<Rightarrow> message_event \<Rightarrow> nat list \<Rightarrow> nat option res" where
  "findIframeBySource_loop w ev [] = Ok None"
| "findIframeBySource_loop w ev (i # rest) =
     (case try_catch
             (case read_contentWindow (doc w ! i) of
                Throw x \<Rightarrow> Throw x
              | Ok cwin \<Rightarrow> Ok (cwin = ev_source ev))
             (\<lambda>e. Ok False) of
        Throw x \<Rightarrow> Throw x
      | Ok True \<Rightarrow> Ok (Some i)
      | Ok False \<Rightarrow> findIframeBySource_loop w ev rest)"

definition findIframeBySource :: "message_event \<Rightarrow> nat option action" where
  "findIframeBySource ev w = (findIframeBySource_loop w ev (querySelectorAll_iframe w), w)"

text \<open>\<open>values.indexOf(adId) !== -1\<close> on an array of strings.\<close>

fun indexOf_found :: "string list \<Rightarrow> jsval \<Rightarrow> bool" where
  "indexOf_found values (Str s) = (s \<in> set values)"
| "indexOf_found values v = False"

text \<open>
  The inner loop of \<open>findIframeByGptAdId\<close> over the targeting keys of one slot:
  \<open>Some r\<close> when the loop returns \<open>r\<close> from the function, \<open>None\<close> when it runs
  to its end.
\<close>

fun gpt_keys_loop :: "world \<Rightarrow> jsval \<Rightarrow> string \<Rightarrow> (string \<times> string list) list \<Rightarrow> nat option option" where
  "gpt_keys_loop w adId slotElementId [] = None"
| "gpt_keys_loop w adId slotElementId ((k, values) # rest) =
     (if indexOf_found values adId
      then (case getElementById w slotElementId of
              Some el \<Rightarrow> Some (querySelector_iframe w el)
            | None \<Rightarrow> gpt_keys_loop w adId slotElementId rest)
      else gpt_keys_loop w adId slotElementId rest)"

text \<open>The outer loop over the slots; the calls on a broken slot raise.\<close>

fun gpt_slots_loop :: "world \<Rightarrow> jsval \<Rightarrow> gpt_slot list \<Rightarrow> nat option res" where
  "gpt_slots_loop w adId [] = Ok None"
| "gpt_slots_loop w adId (BrokenSlot x # rest) = Throw x"
| "gpt_slots_loop w adId (GptSlot targeting slotElementId # rest) =
     (case gpt_keys_loop w adId slotElementId targeting of
        Some r \<Rightarrow> Ok r
      | None \<Rightarrow> gpt_slots_loop w adId rest)"

definition findIframeByGptAdId :: "jsval \<Rightarrow> nat option action" where
  "findIframeByGptAdId adId w =
     (if \<not> truthy adId then (Ok None, w)
      else (try_catch
              (case googletag w of
                 GptUndefined \<Rightarrow> Ok None
               | GptNoPubads \<Rightarrow> Ok None
               | GptThrows x \<Rightarrow> Throw x
               | GptSlots slots \<Rightarrow> gpt_slots_loop w adId slots)
              (\<lambda>e. Ok None), w))"

text \<open>
  The body of the \<open>try\<close> in \<open>findIframeByApnTag\<close>: \<open>getTag\<close> looks its argument
  up as a property name, and \<open>getElementById\<close> converts the target id to a
  string; either conversion may raise.
\<close>

definition apnTag_lookup :: "platform \<Rightarrow> jsval \<Rightarrow> nat option action" where
  "apnTag_lookup pf adUnitCode w =
     (case apntag w of
        ApnUndefined \<Rightarrow> (Ok None, w)
      | ApnNoGetTag \<Rightarrow> (Ok None, w)
      | ApnThrows x \<Rightarrow> (Throw x, w)
      | ApnTags tags \<Rightarrow>
          then_do (to_string pf HintString adUnitCode)
            (\<lambda>key w1.
               let tag = (case map_of tags key of Some t \<Rightarrow> t | None \<Rightarrow> Undefined)
               in if truthy tag \<and> truthy (get_prop tag ''targetId'')
                  then then_do (to_string pf HintString (get_prop tag ''targetId''))
                         (\<lambda>targetId w2.
                            case getElementById w2 targetId of
                              Some el \<Rightarrow> (Ok (querySelector_iframe w2 el), w2)
                            | None \<Rightarrow> (Ok None, w2)) w1
                  else (Ok None, w1)) w)"

definition findIframeByApnTag :: "platform \<Rightarrow> jsval \<Rightarrow> nat option action" where
  "findIframeByApnTag pf adUnitCode w =
     (if \<not> truthy adUnitCode then (Ok None, w)
      else catching (apnTag_lookup pf adUnitCode) (\<lambda>e w1. (Ok None, w1)) w)"

text \<open>
  The last resort of \<open>findAdIframe\<close>: the \<open>adUnitCode\<close> as a DOM id.
  \<open>getElementById\<close> converts it to a string, outside any \<open>try\<close>.
\<close>

definition findIframeById :: "platform \<Rightarrow> jsval \<Rightarrow> nat option action" where
  "findIframeById pf adUnitCode w =
     (if truthy adUnitCode
      then then_do (to_string pf HintString adUnitCode)
             (\<lambda>elemId w1.
                case getElementById w1 elemId of
                  Some el \<Rightarrow> (Ok (querySelector_iframe w1 el), w1)
                | None \<Rightarrow> (Ok None, w1)) w
      else (Ok None, w))"

text \<open>\<open>a || b\<close> on lookups: \<open>b\<close> is evaluated only when \<open>a\<close> gave \<open>null\<close>.\<close>

definition or_else :: "nat option action \<Rightarrow> nat option action \<Rightarrow> nat option action" where
  "or_else a b w =
     (case a w of
        (Throw x, w1) \<Rightarrow> (Throw x, w1)
      | (Ok (Some f), w1) \<Rightarrow> (Ok (Some f), w1)
      | (Ok None, w1) \<Rightarrow> b w1)"

definition findAdIframe :: "platform \<Rightarrow> message_event \<Rightarrow> jsval \<Rightarrow> jsval \<Rightarrow> nat option action" where
  "findAdIframe pf ev adId adUnitCode =
     or_else (findIframeBySource ev)
       (or_else (findIframeByGptAdId adId)
          (or_else (findIframeByApnTag pf adUnitCode)
             (findIframeById pf adUnitCode)))"

text \<open>The loop of \<open>guessAdUnitCode\<close>, from the element \<open>el\<close> upwards.\<close>

function guessAdUnitCode_loop :: "world \<Rightarrow> nat option \<Rightarrow> jsval" where
  "guessAdUnitCode_loop w el =
     (case el of
        None \<Rightarrow> Null
      | Some i \<Rightarrow>
          if Some i = bodyIx w then Null
          else if elemId (doc w ! i) \<noteq> [] then Str (elemId (doc w ! i))
          else guessAdUnitCode_loop w (parentElement w i))"
  by pat_completeness auto
termination
  by (relation "measure (\<lambda>(w, el). case el of None \<Rightarrow> 0 | Some i \<Rightarrow> Suc i)")
     (auto dest: parentElement_less split: option.splits)

declare guessAdUnitCode_loop.simps [simp del]

definition guessAdUnitCode :: "world \<Rightarrow> nat option \<Rightarrow> jsval" where
  "guessAdUnitCode w iframe =
     (case iframe of
        None \<Rightarrow> Null
      | Some i \<Rightarrow> guessAdUnitCode_loop w (parentElement w i))"

section \<open>Logging helpers\<close>

text \<open>
  \<open>typeof console !== 'undefined' && console.warn\<close>, and likewise for \<open>log\<close>
  and \<open>error\<close>.
\<close>

fun has_method :: "console_api \<Rightarrow> level \<Rightarrow> bool" where
  "has_method c Info = hasLog c"
| "has_method c Warn = hasWarn c"
| "has_method c Error = hasError c"

definition console_has :: "world \<Rightarrow> level \<Rightarrow> bool" where
  "console_has w l = (case console w of None \<Rightarrow> False | Some c \<Rightarrow> has_method c l)"

text \<open>The call of the console method with the arguments \<open>args\<close>.\<close>

definition write_console :: "level \<Rightarrow> string list \<Rightarrow> world \<Rightarrow> world" where
  "write_console l args w = w\<lparr>consoleOut := consoleOut w @ [(l, args)]\<rparr>"

text \<open>
  Each helper writes only when \<open>console\<close> is defined and has the method; the
  tag is put before the arguments.
\<close>

definition logInfo :: "string list \<Rightarrow> world \<Rightarrow> world" where
  "logInfo args w = (if console_has w Info then write_console Info (PREFIX # args) w else w)"

definition logWarn :: "string list \<Rightarrow> world \<Rightarrow> world" where
  "logWarn args w = (if console_has w Warn then write_console Warn (PREFIX # args) w else w)"

definition logError :: "string list \<Rightarrow> world \<Rightarrow> world" where
  "logError args w = (if console_has w Error then write_console Error (PREFIX # args) w else w)"

section \<open>Default resize\<close>

definition update_element :: "nat \<Rightarrow> (element \<Rightarrow> element) \<Rightarrow> world \<Rightarrow> world" where
  "update_element i f w = w\<lparr>doc := (doc w)[i := f (doc w ! i)]\<rparr>"

text \<open>
  The serialisation of a declaration block, which becomes the text of the
  \<open>style\<close> attribute when a declaration is written.
\<close>

definition serialise_style :: "(string \<times> string) list \<Rightarrow> string" where
  "serialise_style ds = join_with '' '' (map (\<lambda>(p, v). p @ '': '' @ v @ '';'') ds)"

text \<open>
  \<open>el.style[prop] = text\<close>: the declaration is written when the CSS parser takes
  the text as a value of the property, and the assignment does nothing otherwise.
  (The empty text, which would remove the declaration, is never assigned by the
  script.)
\<close>

definition set_style_property :: "platform \<Rightarrow> string \<Rightarrow> string \<Rightarrow> element \<Rightarrow> element" where
  "set_style_property pf prop text e =
     (case css_parse pf prop text of
        None \<Rightarrow> e
      | Some v \<Rightarrow>
          e\<lparr>styleAttr := serialise_style (AList.update prop v (inlineStyle e)),
            inlineStyle := AList.update prop v (inlineStyle e)\<rparr>)"

text \<open>\<open>el.style.width = widthCSS; el.style.height = heightCSS\<close>.\<close>

definition set_size_css :: "platform \<Rightarrow> string \<Rightarrow> string \<Rightarrow> element \<Rightarrow> element" where
  "set_size_css pf widthCSS heightCSS e =
     set_style_property pf ''height'' heightCSS (set_style_property pf ''width'' widthCSS e)"

text \<open>
  \<open>iframe.width = value\<close> and \<open>iframe.height = value\<close>: the value is converted to
  a string, which becomes the attribute.
\<close>

definition set_width_attr :: "platform \<Rightarrow> nat \<Rightarrow> jsval \<Rightarrow> unit action" where
  "set_width_attr pf iframe v =
     then_do (to_string pf HintString v)
       (\<lambda>s w. (Ok (), update_element iframe (\<lambda>e. e\<lparr>widthAttr := Some s\<rparr>) w))"

definition set_height_attr :: "platform \<Rightarrow> nat \<Rightarrow> jsval \<Rightarrow> unit action" where
  "set_height_attr pf iframe v =
     then_do (to_string pf HintString v)
       (\<lambda>s w. (Ok (), update_element iframe (\<lambda>e. e\<lparr>heightAttr := Some s\<rparr>) w))"

text \<open>
  \<open>defaultResize(iframe, width, height)\<close> on an element \<open>iframe\<close>. The two
  dimensions are computed first, then the list \<open>[iframe, iframe.parentElement]\<close>
  is built and both elements are written; every element has a \<open>style\<close> object, so
  the test \<open>el && el.style\<close> is whether the element exists. The attributes come
  last.
\<close>

definition defaultResize :: "platform \<Rightarrow> nat \<Rightarrow> jsval \<Rightarrow> jsval \<Rightarrow> unit action" where
  "defaultResize pf iframe width height =
     then_do (getDimension pf width) (\<lambda>widthCSS.
     then_do (getDimension pf height) (\<lambda>heightCSS.
     then_do (\<lambda>w. (Ok (),
                foldl (\<lambda>acc el. case el of
                          None \<Rightarrow> acc
                        | Some i \<Rightarrow> update_element i (set_size_css pf widthCSS heightCSS) acc)
                      w [Some iframe, parentElement w iframe])) (\<lambda>u1.
     then_do (if truthy width then set_width_attr pf iframe width
              else set_width_attr pf iframe (Str ''100%'')) (\<lambda>u2.
     if truthy height then set_height_attr pf iframe height
     else (\<lambda>w. (Ok (), w))))))"

section \<open>The message handler\<close>

text \<open>
  What a run of the handler leaves: how it completed, the resize functions it
  called (function and arguments, in order), and the page.
\<close>

record outcome =
  completion :: "unit res"
  invoked :: "(nat \<times> jsval list) list"
  page :: world

definition finish :: "world \<Rightarrow> outcome" where
  "finish w = \<lparr>completion = Ok (), invoked = [], page = w\<rparr>"

text \<open>An exception that leaves the handler.\<close>

definition abort :: "jsval \<Rightarrow> (nat \<times> jsval list) list \<Rightarrow> world \<Rightarrow> outcome" where
  "abort x calls w = \<lparr>completion = Throw x, invoked = calls, page = w\<rparr>"

text \<open>\<open>ev.data != null ? ev.data : ev.message\<close>.\<close>

definition raw_payload :: "message_event \<Rightarrow> jsval" where
  "raw_payload ev =
     (if ev_data ev \<noteq> Null \<and> ev_data ev \<noteq> Undefined then ev_data ev else ev_message ev)"

text \<open>
  The parsing step of \<open>onMessage\<close>: \<open>Some data\<close> when the handler goes on with
  \<open>data\<close>, \<open>None\<close> when it returns (the handler of the \<open>try\<close> around
  \<open>JSON.parse\<close> returns from \<open>onMessage\<close>).
\<close>

definition parse_payload :: "platform \<Rightarrow> message_event \<Rightarrow> jsval option" where
  "parse_payload pf ev =
     (let raw = raw_payload ev
      in case raw of
           Str s \<Rightarrow>
             (case try_catch (case JSON_parse pf s of Ok d \<Rightarrow> Ok (Some d) | Throw x \<Rightarrow> Throw x)
                             (\<lambda>e. Ok None) of
                Ok r \<Rightarrow> r
              | Throw x \<Rightarrow> None)
         | _ \<Rightarrow> if typeof raw = ''object'' then Some raw else None)"

text \<open>
  The call of a custom resize function on the receiver \<open>this\<close>, inside its
  \<open>try\<close>, and the \<open>return\<close> after it. The handler of the \<open>try\<close> concatenates
  \<open>e && e.message\<close> to the text it logs: that conversion may itself raise, and
  then the exception leaves \<open>onMessage\<close> with nothing logged.
\<close>

definition call_resizeFunction ::
    "platform \<Rightarrow> nat \<Rightarrow> jsval \<Rightarrow> jsval \<Rightarrow> jsval \<Rightarrow> nat \<Rightarrow> message_event \<Rightarrow> world \<Rightarrow> outcome" where
  "call_resizeFunction pf f this adId height iframe ev w =
     (let args = [adId, height, Obj [(''iframe'', Elem iframe), (''event'', event_obj ev)]]
      in case call_fun pf f this args w of
           (Ok v, w1) \<Rightarrow> \<lparr>completion = Ok (), invoked = [(f, args)], page = w1\<rparr>
         | (Throw e, w1) \<Rightarrow>
             (case to_string pf HintDefault (js_and e (get_prop e ''message'')) w1 of
                (Throw x, w2) \<Rightarrow> abort x [(f, args)] w2
              | (Ok s, w2) \<Rightarrow>
                  \<lparr>completion = Ok (), invoked = [(f, args)],
                   page = logError [''Custom resizeFunction threw: '' @ s] w2\<rparr>))"

text \<open>
  The local variables of \<open>onMessage\<close> as functions of its inputs:
  \<open>data.adId || null\<close>, \<open>data.adUnitCode || null\<close>, and the slot configuration,
  looked up under the \<open>adUnitCode\<close> of the message or, when the message has
  none, under the one guessed from the iframe. As in the source, \<open>cfg\<close> is read
  once, before the lookups, and \<open>getSlotConfig\<close> reads the global again.
\<close>

definition message_adId :: "jsval \<Rightarrow> jsval" where
  "message_adId data = js_or (get_prop data ''adId'') Null"

definition message_adUnitCode :: "jsval \<Rightarrow> jsval" where
  "message_adUnitCode data = js_or (get_prop data ''adUnitCode'') Null"

definition slot_config_for :: "platform \<Rightarrow> jsval \<Rightarrow> nat \<Rightarrow> jsval action" where
  "slot_config_for pf data iframe w =
     getSlotConfig pf
       (if \<not> truthy (message_adUnitCode data) then guessAdUnitCode w (Some iframe)
        else message_adUnitCode data) w"

text \<open>
  The default path of \<open>onMessage\<close>: the resize, then the information line, whose
  text concatenates \<open>adId\<close> and \<open>height || '100%'\<close> (a number or a string).
\<close>

definition default_path :: "platform \<Rightarrow> nat \<Rightarrow> jsval \<Rightarrow> jsval \<Rightarrow> world \<Rightarrow> outcome" where
  "default_path pf iframe adId height w =
     (case defaultResize pf iframe Null height w of
        (Throw x, w1) \<Rightarrow> abort x [] w1
      | (Ok u, w1) \<Rightarrow>
          (case to_string pf HintDefault adId w1 of
             (Throw x, w2) \<Rightarrow> abort x [] w2
           | (Ok s, w2) \<Rightarrow>
               finish (logInfo
                 [''programmaticStretch applied '' @ [CHR 0xE2, CHR 0x80, CHR 0x94]
                    @ '' adId: '' @ s @ '', width: 100%, height: ''
                    @ prim_str pf (js_or height (Str ''100%''))] w2)))"

definition onMessage :: "platform \<Rightarrow> world \<Rightarrow> message_event \<Rightarrow> outcome" where
  "onMessage pf w ev =
     (case parse_payload pf ev of
        None \<Rightarrow> finish w
      | Some data \<Rightarrow>
          if \<not> truthy data
             \<or> get_prop data ''message'' \<noteq> Str MESSAGE_CREATIVE
             \<or> get_prop data ''action'' \<noteq> Str ACTION_PROGRAMMATIC_STRETCH
          then finish w
          else
            let adId = message_adId data;
                adUnitCode = message_adUnitCode data;
                cfg = getConfig w
            in if get_prop cfg ''enabled'' = Bool False
               then finish (logWarn
                 [''Received programmaticStretch message but script is globally disabled.''] w)
               else
                 (case findAdIframe pf ev adId adUnitCode w of
                    (Throw x, w1) \<Rightarrow> abort x [] w1
                  | (Ok None, w1) \<Rightarrow>
                      (case to_string pf HintDefault adId w1 of
                         (Throw x, w2) \<Rightarrow> abort x [] w2
                       | (Ok s, w2) \<Rightarrow> finish (logWarn
                           [''Received programmaticStretch message but could not locate the ad iframe (adId: ''
                              @ s @ '').''] w2))
                  | (Ok (Some iframe), w1) \<Rightarrow>
                      (case slot_config_for pf data iframe w1 of
                         (Throw x, w2) \<Rightarrow> abort x [] w2
                       | (Ok slotCfg, w2) \<Rightarrow>
                           let height = resolveHeight w2 slotCfg data (Some iframe)
                           in case (if truthy slotCfg
                                    then fun_ref (get_prop slotCfg ''resizeFunction'')
                                    else None) of
                                Some f \<Rightarrow>
                                  call_resizeFunction pf f slotCfg adId height iframe ev w2
                              | None \<Rightarrow>
                                  (case fun_ref (get_prop cfg ''resizeFunction'') of
                                     Some g \<Rightarrow>
                                       call_resizeFunction pf g cfg adId height iframe ev w2
                                   | None \<Rightarrow> default_path pf iframe adId height w2))))"

section \<open>A sample page\<close>

text \<open>
  A page with one ad slot, a platform and a message, on which the theorems below
  are instantiated. The sample \<open>JSON.parse\<close> knows two texts; function \<open>1\<close>
  raises an error object, function \<open>4\<close> raises an object whose message cannot be
  converted to a string, every other function returns, and none changes the page; the
  sample CSS parser takes a non-negative decimal number followed by \<open>px\<close> or
  \<open>%\<close> as a width or height, and nothing else.
\<close>

definition stretch_json :: string where
  \<open>stretch_json =
     ''{"message":"Prebid Creative","action":"programmaticStretch","adId":"ad-1","height":250}''\<close>

definition stretch_data :: jsval where
  "stretch_data = Obj [(''message'', Str ''Prebid Creative''),
                       (''action'', Str ''programmaticStretch''),
                       (''adId'', Str ''ad-1''),
                       (''height'', Num (Fin 250))]"

text \<open>A message whose height is written \<open>1e999\<close>, which \<open>JSON.parse\<close> reads as \<open>Infinity\<close>.\<close>

definition huge_json :: string where
  \<open>huge_json =
     ''{"message":"Prebid Creative","action":"programmaticStretch","adId":"ad-1","height":1e999}''\<close>

definition huge_data :: jsval where
  "huge_data = Obj [(''message'', Str ''Prebid Creative''),
                    (''action'', Str ''programmaticStretch''),
                    (''adId'', Str ''ad-1''),
                    (''height'', Num PosInf)]"

text \<open>
  A message whose \<open>adUnitCode\<close> is the object \<open>{"toString": 5}\<close>, which has no
  usable conversion method.
\<close>

definition unconvertible :: jsval where
  "unconvertible = Obj [(''toString'', Num (Fin 5))]"

definition odd_code_data :: jsval where
  "odd_code_data = Obj [(''message'', Str ''Prebid Creative''),
                        (''action'', Str ''programmaticStretch''),
                        (''adId'', Str ''ad-1''),
                        (''adUnitCode'', unconvertible)]"

definition css_number :: "string \<Rightarrow> bool" where
  "css_number s =
     (let a = takeWhile is_digit s; r = dropWhile is_digit s
      in a \<noteq> [] \<and> (r = [] \<or> (hd r = CHR ''.'' \<and> tl r \<noteq> [] \<and> list_all is_digit (tl r))))"

definition sample_css :: "string \<Rightarrow> string \<Rightarrow> string option" where
  "sample_css prop text =
     (let n = length text
      in if (prop = ''width'' \<or> prop = ''height'')
            \<and> ((drop (n - 2) text = ''px'' \<and> css_number (take (n - 2) text))
                \<or> (drop (n - 1) text = ''%'' \<and> css_number (take (n - 1) text)))
         then Some text else None)"

definition sample_platform :: platform where
  "sample_platform =
     \<lparr>JSON_parse = (\<lambda>s. if s = stretch_json then Ok stretch_data
                         else if s = huge_json then Ok huge_data
                         else Throw (Str ''SyntaxError'')),
      call_fun = (\<lambda>f this args w.
                    if f = 1 then (Throw (Obj [(''message'', Str ''boom'')]), w)
                    else if f = 4
                    then (Throw (Obj [(''message'', Obj [(''toString'', Null)])]), w)
                    else (Ok Undefined, w)),
      num_str = (\<lambda>q. ''0.5''),
      host_str = (\<lambda>v. Ok ''[native code]''),
      css_parse = sample_css\<rparr>"

definition sample_doc :: "element list" where
  "sample_doc =
     [\<lparr>localName = ''body'', elemId = [], parentIx = None, styleAttr = [], inlineStyle = [],
       widthAttr = None, heightAttr = None, contentWindow = CwNull,
       computedHeight = Some ''600px''\<rparr>,
      \<lparr>localName = ''div'', elemId = ''ad-slot-1'', parentIx = Some 0, styleAttr = [],
       inlineStyle = [], widthAttr = None, heightAttr = None, contentWindow = CwNull,
       computedHeight = Some ''90px''\<rparr>,
      \<lparr>localName = ''iframe'', elemId = [], parentIx = Some 1, styleAttr = [],
       inlineStyle = [], widthAttr = Some ''728'', heightAttr = Some ''90'',
       contentWindow = CwWindow 7, computedHeight = Some ''90px''\<rparr>]"

definition sample_page :: world where
  "sample_page =
     \<lparr>doc = sample_doc, bodyIx = Some 0, programmaticStretch = Undefined,
      googletag = GptUndefined, apntag = ApnUndefined,
      console = Some \<lparr>hasLog = True, hasWarn = True, hasError = True\<rparr>,
      consoleOut = []\<rparr>"

definition sample_event :: message_event where
  "sample_event = \<lparr>ev_data = stretch_data, ev_message = Undefined, ev_source = Win 7\<rparr>"

text \<open>The same page with a taller rendering of the iframe.\<close>

definition sample_page_tall :: world where
  "sample_page_tall =
     sample_page\<lparr>doc := sample_doc[2 := (sample_doc ! 2)\<lparr>computedHeight := Some ''120px''\<rparr>]\<rparr>"

text \<open>
  Publisher configurations: a slot-level and a global callback together; a
  slot-level callback that raises; a global callback that raises; a slot with a
  fixed height and no callback.
\<close>

definition both_callbacks :: jsval where
  "both_callbacks =
     Obj [(''slots'', Obj [(''ad-slot-1'', Obj [(''height'', Num (Fin 300)),
                                               (''resizeFunction'', Fun 2)])]),
          (''resizeFunction'', Fun 3)]"

definition raising_slot_callback :: jsval where
  "raising_slot_callback =
     Obj [(''slots'', Obj [(''ad-slot-1'', Obj [(''resizeFunction'', Fun 1)])])]"

definition raising_global_callback :: jsval where
  "raising_global_callback = Obj [(''resizeFunction'', Fun 1)]"

definition fixed_height_slot :: jsval where
  "fixed_height_slot = Obj [(''slots'', Obj [(''ad-slot-1'', Obj [(''height'', Num (Fin 300))])])]"

text \<open>
  The page with a publisher-tag API whose first slot targets another ad and whose
  second slot targets \<open>ad-1\<close> in the container \<open>ad-slot-1\<close>; the page with an
  ad-tag API that knows the tag \<open>unit-1\<close> with the target \<open>ad-slot-1\<close>; and
  messages from a window that is no frame of the page.
\<close>

definition sample_page_gpt :: world where
  "sample_page_gpt =
     sample_page\<lparr>googletag :=
       GptSlots [GptSlot [(''hb_adid'', [''ad-0''])] ''ad-slot-0'',
                 GptSlot [(''hb_bidder'', [''acme'']), (''hb_adid'', [''ad-1''])] ''ad-slot-1'']\<rparr>"

definition sample_page_apn :: world where
  "sample_page_apn =
     sample_page\<lparr>apntag := ApnTags [(''unit-1'', Obj [(''targetId'', Str ''ad-slot-1'')])]\<rparr>"

definition foreign_event :: message_event where
  "foreign_event = \<lparr>ev_data = stretch_data, ev_message = Undefined, ev_source = Win 9\<rparr>"

definition odd_code_event :: message_event where
  "odd_code_event = \<lparr>ev_data = odd_code_data, ev_message = Undefined, ev_source = Win 9\<rparr>"

definition huge_event :: message_event where
  "huge_event = \<lparr>ev_data = Str huge_json, ev_message = Undefined, ev_source = Win 7\<rparr>"

section \<open>Dimensions\<close>

lemma nat_str_250: "nat_str 250 = ''250''"
  by (simp add: nat_str.simps digit_char_def)

text \<open>
  C9. \<open>getDimension\<close> maps a missing or zero value to \<open>100%\<close> and a positive
  number to its decimal text followed by \<open>px\<close>: \<open>getDimension(undefined)\<close>,
  \<open>getDimension(null)\<close> and \<open>getDimension(0)\<close> give \<open>100%\<close>,
  \<open>getDimension(250)\<close> gives \<open>250px\<close>, and every
  number greater than zero gives its string conversion followed by \<open>px\<close>, which
  for an integer of at most \<open>2^53\<close> is its decimal numeral. On these values the
  function returns and leaves the page as it is.
\<close>

theorem getDimension_spec:
  "getDimension pf Undefined w = (Ok ''100%'', w)
   \<and> getDimension pf Null w = (Ok ''100%'', w)
   \<and> getDimension pf (Num (Fin 0)) w = (Ok ''100%'', w)
   \<and> getDimension pf (Num (Fin 250)) w = (Ok ''250px'', w)
   \<and> (\<forall>n. num_gt0 n \<longrightarrow> getDimension pf (Num n) w = (Ok (number_str pf n @ ''px''), w))
   \<and> (\<forall>k. 0 < k \<and> k \<le> 9007199254740992 \<longrightarrow>
          getDimension pf (Num (Fin (of_int k))) w = (Ok (nat_str (nat k) @ ''px''), w))"
proof -
  have pos: "getDimension pf (Num n) w = (Ok (number_str pf n @ ''px''), w)"
    if "num_gt0 n" for n
    using that by (cases n) (auto simp: getDimension_def)
  have dec: "getDimension pf (Num (Fin (of_int k))) w = (Ok (nat_str (nat k) @ ''px''), w)"
    if "0 < k \<and> k \<le> 9007199254740992" for k :: int
    using that by (simp add: getDimension_def int_str_def)
  have "getDimension pf (Num (Fin 250)) w = (Ok ''250px'', w)"
    using dec [of 250] by (simp add: nat_str_250)
  then show ?thesis
    using pos dec by (simp add: getDimension_def)
qed

theorem getDimension_spec_witness:
  "num_gt0 (Fin 300)
   \<and> getDimension sample_platform (Num (Fin 300)) sample_page = (Ok ''300px'', sample_page)"
proof -
  have h: "num_gt0 (Fin 300)" by simp
  with getDimension_spec [of sample_platform sample_page]
  have "getDimension sample_platform (Num (Fin 300)) sample_page
          = (Ok (number_str sample_platform (Fin 300) @ ''px''), sample_page)"
    by blast
  then show ?thesis
    by (simp add: int_str_def nat_str.simps digit_char_def)
qed

section \<open>Height resolution\<close>

lemma positive_number_truthy: "positive_number (get_prop s k) \<Longrightarrow> truthy s"
  by (cases s) auto

text \<open>
  C1. The resolved height follows the priority chain: the slot configuration's
  \<open>height\<close> when it is a number greater than zero; otherwise the message's
  \<open>height\<close> when it is a number greater than zero; otherwise the iframe's computed
  height parsed as an integer when that is greater than zero; otherwise \<open>null\<close>.
\<close>

theorem resolveHeight_priority:
  "(positive_number (get_prop s ''height'') \<longrightarrow>
      resolveHeight w s d f = get_prop s ''height'')
   \<and> (\<not> positive_number (get_prop s ''height'') \<and> positive_number (get_prop d ''height'') \<longrightarrow>
      resolveHeight w s d f = get_prop d ''height'')
   \<and> (\<not> positive_number (get_prop s ''height'') \<and> \<not> positive_number (get_prop d ''height'')
      \<and> f = Some i \<and> getComputedStyle w i = Some hs \<and> num_gt0 (parseInt hs) \<longrightarrow>
      resolveHeight w s d f = Num (parseInt hs))
   \<and> (\<not> positive_number (get_prop s ''height'') \<and> \<not> positive_number (get_prop d ''height'')
      \<and> (f = None \<or> (f = Some i \<and> getComputedStyle w i = None)
          \<or> (f = Some i \<and> getComputedStyle w i = Some hs \<and> \<not> num_gt0 (parseInt hs))) \<longrightarrow>
      resolveHeight w s d f = Null)"
  using positive_number_truthy [of s "''height''"]
  by (auto simp: resolveHeight_def Let_def)

lemma parseInt_90px: "parseInt ''90px'' = Fin 90"
  by (simp add: parseInt_def is_ws_def is_digit_def digits_val_def digit_val_def)

lemma sample_computed: "getComputedStyle sample_page 2 = Some ''90px''"
  by (simp add: getComputedStyle_def sample_page_def sample_doc_def)

theorem resolveHeight_priority_witness:
  "resolveHeight sample_page (Obj [(''height'', Num (Fin 300))]) stretch_data (Some 2)
     = Num (Fin 300)
   \<and> resolveHeight sample_page Null stretch_data (Some 2) = Num (Fin 250)
   \<and> resolveHeight sample_page Null (Obj []) (Some 2) = Num (Fin 90)
   \<and> resolveHeight sample_page Null (Obj []) None = Null"
proof -
  have a: "resolveHeight sample_page (Obj [(''height'', Num (Fin 300))]) stretch_data (Some 2)
             = Num (Fin 300)"
    using resolveHeight_priority [where s = "Obj [(''height'', Num (Fin 300))]"
        and w = sample_page and d = stretch_data and f = "Some 2" and i = 2 and hs = "''90px''"]
    by simp
  have b: "resolveHeight sample_page Null stretch_data (Some 2) = Num (Fin 250)"
    using resolveHeight_priority [where s = Null and w = sample_page and d = stretch_data
        and f = "Some 2" and i = 2 and hs = "''90px''"]
    by (simp add: stretch_data_def)
  have c: "resolveHeight sample_page Null (Obj []) (Some 2) = Num (Fin 90)"
    using resolveHeight_priority [where s = Null and w = sample_page and d = "Obj []"
        and f = "Some 2" and i = 2 and hs = "''90px''"]
    by (simp add: sample_computed parseInt_90px)
  have d: "resolveHeight sample_page Null (Obj []) None = Null"
    using resolveHeight_priority [where s = Null and w = sample_page and d = "Obj []"
        and f = None and i = 2 and hs = "''90px''"]
    by simp
  from a b c d show ?thesis by simp
qed

section \<open>Messages the handler ignores\<close>

lemma get_prop_Str_truthy: "get_prop d k = Str s \<Longrightarrow> truthy d"
  by (cases d) auto

lemma finish_eq: "finish w = \<lparr>completion = Ok (), invoked = [], page = w\<rparr>"
  by (simp add: finish_def)

lemma parse_payload_bad_json:
  "raw_payload ev = Str s \<Longrightarrow> JSON_parse pf s = Throw x \<Longrightarrow> parse_payload pf ev = None"
  by (simp add: parse_payload_def try_catch_def)

lemma onMessage_unparsed: "parse_payload pf ev = None \<Longrightarrow> onMessage pf w ev = finish w"
  by (simp add: onMessage_def)

lemma onMessage_not_stretch:
  "parse_payload pf ev = Some d \<Longrightarrow>
   get_prop d ''message'' \<noteq> Str MESSAGE_CREATIVE
     \<or> get_prop d ''action'' \<noteq> Str ACTION_PROGRAMMATIC_STRETCH \<Longrightarrow>
   onMessage pf w ev = finish w"
  by (auto simp: onMessage_def)

text \<open>
  C4. An event whose payload lacks a sentinel field (its \<open>message\<close> is not
  \<open>Prebid Creative\<close> or its \<open>action\<close> is not \<open>programmaticStretch\<close>), or whose
  string payload \<open>JSON.parse\<close> rejects, leaves the page as it was: no element is
  written, nothing is logged, no callback is invoked, and the handler returns.
\<close>

theorem onMessage_ignores_foreign:
  assumes "(\<exists>s x. raw_payload ev = Str s \<and> JSON_parse pf s = Throw x)
           \<or> (\<exists>d. parse_payload pf ev = Some d
                  \<and> (get_prop d ''message'' \<noteq> Str MESSAGE_CREATIVE
                       \<or> get_prop d ''action'' \<noteq> Str ACTION_PROGRAMMATIC_STRETCH))"
  shows "onMessage pf w ev = \<lparr>completion = Ok (), invoked = [], page = w\<rparr>"
proof -
  from assms consider
      (json) s x where "raw_payload ev = Str s" "JSON_parse pf s = Throw x"
    | (other) d where "parse_payload pf ev = Some d"
        "get_prop d ''message'' \<noteq> Str MESSAGE_CREATIVE
           \<or> get_prop d ''action'' \<noteq> Str ACTION_PROGRAMMATIC_STRETCH"
    by blast
  then show ?thesis
  proof cases
    case json
    then show ?thesis
      by (simp add: parse_payload_bad_json onMessage_unparsed finish_eq)
  next
    case other
    then show ?thesis
      by (simp add: onMessage_not_stretch finish_eq)
  qed
qed

theorem onMessage_ignores_foreign_witness:
  "onMessage sample_platform sample_page (sample_event\<lparr>ev_data := Str ''{oops''\<rparr>)
     = \<lparr>completion = Ok (), invoked = [], page = sample_page\<rparr>
   \<and> onMessage sample_platform sample_page
        (sample_event\<lparr>ev_data := Obj [(''message'', Str ''Prebid Creative''),
                                       (''action'', Str ''resize'')]\<rparr>)
     = \<lparr>completion = Ok (), invoked = [], page = sample_page\<rparr>
   \<and> onMessage sample_platform sample_page
        (sample_event\<lparr>ev_data := Obj [(''action'', Str ''programmaticStretch'')]\<rparr>)
     = \<lparr>completion = Ok (), invoked = [], page = sample_page\<rparr>"
proof -
  have a: "\<exists>s x. raw_payload (sample_event\<lparr>ev_data := Str ''{oops''\<rparr>) = Str s
                 \<and> JSON_parse sample_platform s = Throw x"
    by (simp add: raw_payload_def sample_platform_def stretch_json_def huge_json_def)
  have b: "\<exists>d. parse_payload sample_platform
                  (sample_event\<lparr>ev_data := Obj [(''message'', Str ''Prebid Creative''),
                                                 (''action'', Str ''resize'')]\<rparr>) = Some d
               \<and> (get_prop d ''message'' \<noteq> Str MESSAGE_CREATIVE
                    \<or> get_prop d ''action'' \<noteq> Str ACTION_PROGRAMMATIC_STRETCH)"
    by (simp add: parse_payload_def raw_payload_def ACTION_PROGRAMMATIC_STRETCH_def)
  have c: "\<exists>d. parse_payload sample_platform
                  (sample_event\<lparr>ev_data := Obj [(''action'', Str ''programmaticStretch'')]\<rparr>)
                 = Some d
               \<and> (get_prop d ''message'' \<noteq> Str MESSAGE_CREATIVE
                    \<or> get_prop d ''action'' \<noteq> Str ACTION_PROGRAMMATIC_STRETCH)"
    by (simp add: parse_payload_def raw_payload_def)
  show ?thesis
    using onMessage_ignores_foreign [of _ sample_platform sample_page] a b c
    by blast
qed

section \<open>The global switch\<close>

lemma onMessage_stretch:
  assumes "parse_payload pf ev = Some d"
    and "get_prop d ''message'' = Str MESSAGE_CREATIVE"
    and "get_prop d ''action'' = Str ACTION_PROGRAMMATIC_STRETCH"
    and "get_prop (getConfig w) ''enabled'' = Bool False"
  shows "onMessage pf w ev = finish (logWarn
           [''Received programmaticStretch message but script is globally disabled.''] w)"
  using assms get_prop_Str_truthy [of d "''message''" MESSAGE_CREATIVE]
  by (simp add: onMessage_def Let_def)

text \<open>
  C6, as the code has it. For a \<open>programmaticStretch\<close> message received while the
  configuration has \<open>enabled\<close> set to \<open>false\<close>, the handler calls its warning
  logger once and stops: one warning line is written when \<open>console.warn\<close> is
  available, none when it is not, and in both cases no element is changed and no
  callback is invoked.
\<close>

theorem onMessage_disabled:
  assumes "parse_payload pf ev = Some d"
    and "get_prop d ''message'' = Str MESSAGE_CREATIVE"
    and "get_prop d ''action'' = Str ACTION_PROGRAMMATIC_STRETCH"
    and "get_prop (getConfig w) ''enabled'' = Bool False"
  shows "onMessage pf w ev =
           \<lparr>completion = Ok (), invoked = [],
            page = w\<lparr>consoleOut := consoleOut w @
                     (if console_has w Warn
                      then [(Warn, [PREFIX,
                        ''Received programmaticStretch message but script is globally disabled.''])]
                      else [])\<rparr>\<rparr>"
  using onMessage_stretch [OF assms]
  by (simp add: finish_def logWarn_def write_console_def)

theorem onMessage_disabled_witness:
  "onMessage sample_platform
     (sample_page\<lparr>programmaticStretch := Obj [(''enabled'', Bool False)]\<rparr>) sample_event
   = \<lparr>completion = Ok (), invoked = [],
      page = sample_page\<lparr>programmaticStretch := Obj [(''enabled'', Bool False)],
               consoleOut := [(Warn, [''[ProgrammaticStretch]'',
                 ''Received programmaticStretch message but script is globally disabled.''])]\<rparr>\<rparr>"
proof -
  have p: "parse_payload sample_platform sample_event = Some stretch_data"
    by (simp add: parse_payload_def raw_payload_def sample_event_def stretch_data_def)
  have m: "get_prop stretch_data ''message'' = Str MESSAGE_CREATIVE"
    by (simp add: stretch_data_def MESSAGE_CREATIVE_def)
  have a: "get_prop stretch_data ''action'' = Str ACTION_PROGRAMMATIC_STRETCH"
    by (simp add: stretch_data_def ACTION_PROGRAMMATIC_STRETCH_def)
  have e: "get_prop (getConfig (sample_page\<lparr>programmaticStretch := Obj [(''enabled'', Bool False)]\<rparr>))
             ''enabled'' = Bool False"
    by (simp add: getConfig_def js_or_def)
  show ?thesis
    using onMessage_disabled [OF p m a e]
    by (simp add: console_has_def sample_page_def PREFIX_def)
qed

text \<open>
  C6 as the specification states it promises exactly one warning line for
  every such message; on a page without \<open>console\<close> none is written.
\<close>

theorem onMessage_disabled_no_console:
  "parse_payload sample_platform sample_event = Some stretch_data
   \<and> get_prop stretch_data ''message'' = Str MESSAGE_CREATIVE
   \<and> get_prop stretch_data ''action'' = Str ACTION_PROGRAMMATIC_STRETCH
   \<and> get_prop (getConfig (sample_page\<lparr>programmaticStretch := Obj [(''enabled'', Bool False)],
                                       console := None\<rparr>)) ''enabled'' = Bool False
   \<and> consoleOut (page (onMessage sample_platform
        (sample_page\<lparr>programmaticStretch := Obj [(''enabled'', Bool False)], console := None\<rparr>)
        sample_event)) = []"
proof -
  have p: "parse_payload sample_platform sample_event = Some stretch_data"
    by (simp add: parse_payload_def raw_payload_def sample_event_def stretch_data_def)
  have m: "get_prop stretch_data ''message'' = Str MESSAGE_CREATIVE"
    by (simp add: stretch_data_def MESSAGE_CREATIVE_def)
  have a: "get_prop stretch_data ''action'' = Str ACTION_PROGRAMMATIC_STRETCH"
    by (simp add: stretch_data_def ACTION_PROGRAMMATIC_STRETCH_def)
  have e: "get_prop (getConfig (sample_page\<lparr>programmaticStretch := Obj [(''enabled'', Bool False)],
                                           console := None\<rparr>)) ''enabled'' = Bool False"
    by (simp add: getConfig_def js_or_def)
  have "consoleOut (page (onMessage sample_platform
          (sample_page\<lparr>programmaticStretch := Obj [(''enabled'', Bool False)], console := None\<rparr>)
          sample_event)) = []"
    unfolding onMessage_stretch [OF p m a e]
    by (simp add: finish_def logWarn_def console_has_def sample_page_def)
  with p m a e show ?thesis by simp
qed

section \<open>Where the payload is read\<close>

lemma parse_payload_object:
  "raw_payload ev = d \<Longrightarrow> typeof d = ''object'' \<Longrightarrow> parse_payload pf ev = Some d"
  by (cases d) (auto simp: parse_payload_def)

lemma parse_payload_json:
  "raw_payload ev = Str s \<Longrightarrow> JSON_parse pf s = Ok d \<Longrightarrow> parse_payload pf ev = Some d"
  by (simp add: parse_payload_def try_catch_def)

lemma onMessage_not_located:
  assumes "parse_payload pf ev = Some d"
    and "get_prop d ''message'' = Str MESSAGE_CREATIVE"
    and "get_prop d ''action'' = Str ACTION_PROGRAMMATIC_STRETCH"
    and "get_prop (getConfig w) ''enabled'' \<noteq> Bool False"
    and "findAdIframe pf ev (message_adId d) (message_adUnitCode d) w = (Ok None, w1)"
    and "to_string pf HintDefault (message_adId d) w1 = (Ok s, w2)"
  shows "onMessage pf w ev = finish (logWarn
           [''Received programmaticStretch message but could not locate the ad iframe (adId: ''
              @ s @ '').''] w2)"
  using assms get_prop_Str_truthy [of d "''message''" MESSAGE_CREATIVE]
  by (simp add: onMessage_def Let_def)

text \<open>
  C10. When the event's \<open>data\<close> is \<open>null\<close> or \<open>undefined\<close> the payload is read
  from its \<open>message\<close> field, and the handler acts on what that field holds: if
  it is (or, being a string, parses to) a \<open>programmaticStretch\<close> message, the
  handler warns and stops when the script is disabled, and warns that the iframe
  is missing when the lookup finds none. An event whose payload is neither a string
  nor of type \<open>object\<close> leaves the page as it was, with nothing logged.
\<close>

theorem onMessage_payload_fallback:
  "(ev_data ev = Null \<or> ev_data ev = Undefined \<longrightarrow>
      raw_payload ev = ev_message ev
      \<and> parse_payload pf ev = parse_payload pf (ev\<lparr>ev_data := ev_message ev\<rparr>))
   \<and> (typeof (raw_payload ev) \<noteq> ''string'' \<and> typeof (raw_payload ev) \<noteq> ''object'' \<longrightarrow>
      onMessage pf w ev = \<lparr>completion = Ok (), invoked = [], page = w\<rparr>)
   \<and> ((ev_data ev = Null \<or> ev_data ev = Undefined)
      \<and> ((ev_message ev = d \<and> typeof d = ''object'')
          \<or> (\<exists>s. ev_message ev = Str s \<and> JSON_parse pf s = Ok d))
      \<and> get_prop d ''message'' = Str MESSAGE_CREATIVE
      \<and> get_prop d ''action'' = Str ACTION_PROGRAMMATIC_STRETCH
      \<and> get_prop (getConfig w) ''enabled'' = Bool False \<longrightarrow>
      onMessage pf w ev =
        \<lparr>completion = Ok (), invoked = [],
         page = w\<lparr>consoleOut := consoleOut w @
                  (if console_has w Warn
                   then [(Warn, [PREFIX,
                     ''Received programmaticStretch message but script is globally disabled.''])]
                   else [])\<rparr>\<rparr>)
   \<and> ((ev_data ev = Null \<or> ev_data ev = Undefined)
      \<and> ((ev_message ev = d \<and> typeof d = ''object'')
          \<or> (\<exists>s. ev_message ev = Str s \<and> JSON_parse pf s = Ok d))
      \<and> get_prop d ''message'' = Str MESSAGE_CREATIVE
      \<and> get_prop d ''action'' = Str ACTION_PROGRAMMATIC_STRETCH
      \<and> get_prop (getConfig w) ''enabled'' \<noteq> Bool False
      \<and> findAdIframe pf ev (message_adId d) (message_adUnitCode d) w = (Ok None, w1)
      \<and> to_string pf HintDefault (message_adId d) w1 = (Ok t, w2) \<longrightarrow>
      onMessage pf w ev =
        \<lparr>completion = Ok (), invoked = [],
         page = w2\<lparr>consoleOut := consoleOut w2 @
                  (if console_has w2 Warn
                   then [(Warn, [PREFIX,
                     ''Received programmaticStretch message but could not locate the ad iframe (adId: ''
                       @ t @ '').''])]
                   else [])\<rparr>\<rparr>)"
proof -
  have discard: "parse_payload pf ev = None"
    if "typeof (raw_payload ev) \<noteq> ''string''" "typeof (raw_payload ev) \<noteq> ''object''"
    using that by (cases "raw_payload ev") (simp_all add: parse_payload_def)
  have parsed: "parse_payload pf ev = Some d"
    if "ev_data ev = Null \<or> ev_data ev = Undefined"
      and "(ev_message ev = d \<and> typeof d = ''object'')
           \<or> (\<exists>s. ev_message ev = Str s \<and> JSON_parse pf s = Ok d)"
  proof -
    from that(1) have r: "raw_payload ev = ev_message ev"
      by (auto simp: raw_payload_def)
    from that(2) show ?thesis
      using r by (auto intro: parse_payload_object parse_payload_json)
  qed
  have c1: "ev_data ev = Null \<or> ev_data ev = Undefined \<longrightarrow>
      raw_payload ev = ev_message ev
      \<and> parse_payload pf ev = parse_payload pf (ev\<lparr>ev_data := ev_message ev\<rparr>)"
    by (auto simp: raw_payload_def parse_payload_def)
  have c2: "typeof (raw_payload ev) \<noteq> ''string'' \<and> typeof (raw_payload ev) \<noteq> ''object'' \<longrightarrow>
      onMessage pf w ev = \<lparr>completion = Ok (), invoked = [], page = w\<rparr>"
    using discard by (simp add: onMessage_unparsed finish_eq)
  have c3: "(ev_data ev = Null \<or> ev_data ev = Undefined)
      \<and> ((ev_message ev = d \<and> typeof d = ''object'')
          \<or> (\<exists>s. ev_message ev = Str s \<and> JSON_parse pf s = Ok d))
      \<and> get_prop d ''message'' = Str MESSAGE_CREATIVE
      \<and> get_prop d ''action'' = Str ACTION_PROGRAMMATIC_STRETCH
      \<and> get_prop (getConfig w) ''enabled'' = Bool False \<longrightarrow>
      onMessage pf w ev =
        \<lparr>completion = Ok (), invoked = [],
         page = w\<lparr>consoleOut := consoleOut w @
                  (if console_has w Warn
                   then [(Warn, [PREFIX,
                     ''Received programmaticStretch message but script is globally disabled.''])]
                   else [])\<rparr>\<rparr>"
  proof (intro impI, elim conjE)
    assume n: "ev_data ev = Null \<or> ev_data ev = Undefined"
      and m: "(ev_message ev = d \<and> typeof d = ''object'')
              \<or> (\<exists>s. ev_message ev = Str s \<and> JSON_parse pf s = Ok d)"
      and s1: "get_prop d ''message'' = Str MESSAGE_CREATIVE"
      and s2: "get_prop d ''action'' = Str ACTION_PROGRAMMATIC_STRETCH"
      and e: "get_prop (getConfig w) ''enabled'' = Bool False"
    show "onMessage pf w ev =
        \<lparr>completion = Ok (), invoked = [],
         page = w\<lparr>consoleOut := consoleOut w @
                  (if console_has w Warn
                   then [(Warn, [PREFIX,
                     ''Received programmaticStretch message but script is globally disabled.''])]
                   else [])\<rparr>\<rparr>"
      using onMessage_stretch [OF parsed [OF n m] s1 s2 e]
      by (simp add: finish_def logWarn_def write_console_def)
  qed
  have c4: "(ev_data ev = Null \<or> ev_data ev = Undefined)
      \<and> ((ev_message ev = d \<and> typeof d = ''object'')
          \<or> (\<exists>s. ev_message ev = Str s \<and> JSON_parse pf s = Ok d))
      \<and> get_prop d ''message'' = Str MESSAGE_CREATIVE
      \<and> get_prop d ''action'' = Str ACTION_PROGRAMMATIC_STRETCH
      \<and> get_prop (getConfig w) ''enabled'' \<noteq> Bool False
      \<and> findAdIframe pf ev (message_adId d) (message_adUnitCode d) w = (Ok None, w1)
      \<and> to_string pf HintDefault (message_adId d) w1 = (Ok t, w2) \<longrightarrow>
      onMessage pf w ev =
        \<lparr>completion = Ok (), invoked = [],
         page = w2\<lparr>consoleOut := consoleOut w2 @
                  (if console_has w2 Warn
                   then [(Warn, [PREFIX,
                     ''Received programmaticStretch message but could not locate the ad iframe (adId: ''
                       @ t @ '').''])]
                   else [])\<rparr>\<rparr>"
  proof (intro impI, elim conjE)
    assume n: "ev_data ev = Null \<or> ev_data ev = Undefined"
      and m: "(ev_message ev = d \<and> typeof d = ''object'')
              \<or> (\<exists>s. ev_message ev = Str s \<and> JSON_parse pf s = Ok d)"
      and s1: "get_prop d ''message'' = Str MESSAGE_CREATIVE"
      and s2: "get_prop d ''action'' = Str ACTION_PROGRAMMATIC_STRETCH"
      and e: "get_prop (getConfig w) ''enabled'' \<noteq> Bool False"
      and f: "findAdIframe pf ev (message_adId d) (message_adUnitCode d) w = (Ok None, w1)"
      and c: "to_string pf HintDefault (message_adId d) w1 = (Ok t, w2)"
    show "onMessage pf w ev =
        \<lparr>completion = Ok (), invoked = [],
         page = w2\<lparr>consoleOut := consoleOut w2 @
                  (if console_has w2 Warn
                   then [(Warn, [PREFIX,
                     ''Received programmaticStretch message but could not locate the ad iframe (adId: ''
                       @ t @ '').''])]
                   else [])\<rparr>\<rparr>"
      using onMessage_not_located [OF parsed [OF n m] s1 s2 e f c]
      by (simp add: finish_def logWarn_def write_console_def)
  qed
  from c1 c2 c3 c4 show ?thesis by blast
qed

lemma sample_message: "get_prop stretch_data ''message'' = Str MESSAGE_CREATIVE"
  by (simp add: stretch_data_def MESSAGE_CREATIVE_def)

lemma sample_action: "get_prop stretch_data ''action'' = Str ACTION_PROGRAMMATIC_STRETCH"
  by (simp add: stretch_data_def ACTION_PROGRAMMATIC_STRETCH_def)

theorem onMessage_payload_fallback_witness:
  "onMessage sample_platform sample_page
     \<lparr>ev_data = Null, ev_message = Num (Fin 5), ev_source = Win 7\<rparr>
     = \<lparr>completion = Ok (), invoked = [], page = sample_page\<rparr>
   \<and> onMessage sample_platform sample_page
        \<lparr>ev_data = Bool True, ev_message = stretch_data, ev_source = Win 7\<rparr>
     = \<lparr>completion = Ok (), invoked = [], page = sample_page\<rparr>
   \<and> onMessage sample_platform
        (sample_page\<lparr>programmaticStretch := Obj [(''enabled'', Bool False)]\<rparr>)
        \<lparr>ev_data = Undefined, ev_message = Str stretch_json, ev_source = Win 7\<rparr>
     = \<lparr>completion = Ok (), invoked = [],
        page = sample_page\<lparr>programmaticStretch := Obj [(''enabled'', Bool False)],
                 consoleOut := [(Warn, [''[ProgrammaticStretch]'',
                   ''Received programmaticStretch message but script is globally disabled.''])]\<rparr>\<rparr>
   \<and> onMessage sample_platform sample_page
        \<lparr>ev_data = Null, ev_message = stretch_data, ev_source = Win 9\<rparr>
     = \<lparr>completion = Ok (), invoked = [],
        page = sample_page\<lparr>consoleOut := [(Warn, [''[ProgrammaticStretch]'',
                 ''Received programmaticStretch message but could not locate the ad iframe (adId: ad-1).''])]\<rparr>\<rparr>
   \<and> heightAttr (doc (page (onMessage sample_platform sample_page
        \<lparr>ev_data = Null, ev_message = Str stretch_json, ev_source = Win 7\<rparr>)) ! 2)
     = Some ''250''"
proof -
  have a: "onMessage sample_platform sample_page
             \<lparr>ev_data = Null, ev_message = Num (Fin 5), ev_source = Win 7\<rparr>
           = \<lparr>completion = Ok (), invoked = [], page = sample_page\<rparr>"
    using onMessage_payload_fallback
            [where ev = "\<lparr>ev_data = Null, ev_message = Num (Fin 5), ev_source = Win 7\<rparr>"
               and pf = sample_platform and w = sample_page,
             THEN conjunct2, THEN conjunct1]
    by (simp add: raw_payload_def)
  have b: "onMessage sample_platform sample_page
             \<lparr>ev_data = Bool True, ev_message = stretch_data, ev_source = Win 7\<rparr>
           = \<lparr>completion = Ok (), invoked = [], page = sample_page\<rparr>"
    using onMessage_payload_fallback
            [where ev = "\<lparr>ev_data = Bool True, ev_message = stretch_data, ev_source = Win 7\<rparr>"
               and pf = sample_platform and w = sample_page,
             THEN conjunct2, THEN conjunct1]
    by (simp add: raw_payload_def)
  have j: "JSON_parse sample_platform stretch_json = Ok stretch_data"
    by (simp add: sample_platform_def)
  have e: "get_prop (getConfig (sample_page\<lparr>programmaticStretch := Obj [(''enabled'', Bool False)]\<rparr>))
             ''enabled'' = Bool False"
    by (simp add: getConfig_def js_or_def)
  have c: "onMessage sample_platform
             (sample_page\<lparr>programmaticStretch := Obj [(''enabled'', Bool False)]\<rparr>)
             \<lparr>ev_data = Undefined, ev_message = Str stretch_json, ev_source = Win 7\<rparr>
           = \<lparr>completion = Ok (), invoked = [],
              page = sample_page\<lparr>programmaticStretch := Obj [(''enabled'', Bool False)],
                       consoleOut := [(Warn, [''[ProgrammaticStretch]'',
                         ''Received programmaticStretch message but script is globally disabled.''])]\<rparr>\<rparr>"
    using onMessage_payload_fallback
            [where ev = "\<lparr>ev_data = Undefined, ev_message = Str stretch_json, ev_source = Win 7\<rparr>"
               and pf = sample_platform and d = stretch_data
               and w = "sample_page\<lparr>programmaticStretch := Obj [(''enabled'', Bool False)]\<rparr>",
             THEN conjunct2, THEN conjunct2, THEN conjunct1]
          j e sample_message sample_action
    by (simp add: console_has_def sample_page_def PREFIX_def)
  have en: "get_prop (getConfig sample_page) ''enabled'' \<noteq> Bool False"
    by (simp add: getConfig_def js_or_def sample_page_def)
  have nf: "findAdIframe sample_platform
              \<lparr>ev_data = Null, ev_message = stretch_data, ev_source = Win 9\<rparr>
              (message_adId stretch_data) (message_adUnitCode stretch_data) sample_page
            = (Ok None, sample_page)"
    by code_simp
  have ts: "to_string sample_platform HintDefault (message_adId stretch_data) sample_page
            = (Ok ''ad-1'', sample_page)"
    by (simp add: message_adId_def js_or_def stretch_data_def)
  have ty: "typeof stretch_data = ''object''"
    by (simp add: stretch_data_def)
  have d: "onMessage sample_platform sample_page
             \<lparr>ev_data = Null, ev_message = stretch_data, ev_source = Win 9\<rparr>
           = \<lparr>completion = Ok (), invoked = [],
              page = sample_page\<lparr>consoleOut := [(Warn, [''[ProgrammaticStretch]'',
                       ''Received programmaticStretch message but could not locate the ad iframe (adId: ad-1).''])]\<rparr>\<rparr>"
    using onMessage_payload_fallback
            [where ev = "\<lparr>ev_data = Null, ev_message = stretch_data, ev_source = Win 9\<rparr>"
               and pf = sample_platform and d = stretch_data and w = sample_page
               and ?w1.0 = sample_page and ?w2.0 = sample_page and t = "''ad-1''",
             THEN conjunct2, THEN conjunct2, THEN conjunct2]
          en nf ts ty sample_message sample_action
    by (simp add: console_has_def sample_page_def PREFIX_def)
  have r: "heightAttr (doc (page (onMessage sample_platform sample_page
             \<lparr>ev_data = Null, ev_message = Str stretch_json, ev_source = Win 7\<rparr>)) ! 2)
           = Some ''250''"
    by code_simp
  from a b c d r show ?thesis by simp
qed

section \<open>What the resolved height depends on\<close>

text \<open>
  C7, as the code has it. \<open>resolveHeight\<close> changes nothing (it only reads), and
  its result is determined by the slot configuration, the message payload and
  what \<open>getComputedStyle\<close> reports for the iframe at the time of the call: two
  pages that agree on the iframe's computed height give the same result, and when
  the slot configuration or the message supplies a positive height, or there is no
  iframe, the page does not matter at all.
\<close>

theorem resolveHeight_inputs:
  "((\<forall>i. f = Some i \<longrightarrow> getComputedStyle w1 i = getComputedStyle w2 i) \<longrightarrow>
      resolveHeight w1 s d f = resolveHeight w2 s d f)
   \<and> (positive_number (get_prop s ''height'') \<or> positive_number (get_prop d ''height'')
       \<or> f = None \<longrightarrow>
      resolveHeight w1 s d f = resolveHeight w2 s d f)"
  using positive_number_truthy [of s "''height''"]
  by (auto simp: resolveHeight_def split: option.splits)

theorem resolveHeight_inputs_witness:
  "resolveHeight sample_page Null stretch_data (Some 2)
     = resolveHeight sample_page_tall Null stretch_data (Some 2)
   \<and> resolveHeight sample_page Null (Obj []) (Some 1)
     = resolveHeight sample_page_tall Null (Obj []) (Some 1)"
proof -
  have a: "positive_number (get_prop stretch_data ''height'')"
    by (simp add: stretch_data_def)
  have b: "\<forall>i. Some (1::nat) = Some i \<longrightarrow>
             getComputedStyle sample_page i = getComputedStyle sample_page_tall i"
    by (simp add: getComputedStyle_def sample_page_tall_def sample_page_def sample_doc_def)
  show ?thesis
    using resolveHeight_inputs [where ?w1.0 = sample_page and ?w2.0 = sample_page_tall
            and s = Null and d = stretch_data and f = "Some 2"]
          resolveHeight_inputs [where ?w1.0 = sample_page and ?w2.0 = sample_page_tall
            and s = Null and d = "Obj []" and f = "Some 1"]
          a b
    by blast
qed

text \<open>
  C7 as the specification states it makes the result independent of any
  ambient state: the same slot configuration, payload and iframe give different
  heights on two pages that differ only in the computed height of that iframe.
\<close>

theorem resolveHeight_reads_layout:
  "resolveHeight sample_page Null (Obj []) (Some 2) = Num (Fin 90)
   \<and> resolveHeight sample_page_tall Null (Obj []) (Some 2) = Num (Fin 120)
   \<and> resolveHeight sample_page Null (Obj []) (Some 2)
       \<noteq> resolveHeight sample_page_tall Null (Obj []) (Some 2)"
proof -
  have "parseInt ''120px'' = Fin 120"
    by (simp add: parseInt_def is_ws_def is_digit_def digits_val_def digit_val_def)
  then show ?thesis
    by (simp add: resolveHeight_def getComputedStyle_def sample_page_tall_def sample_page_def
                  sample_doc_def parseInt_90px)
qed

section \<open>Custom resize functions\<close>

lemma onMessage_located:
  assumes "parse_payload pf ev = Some d"
    and "get_prop d ''message'' = Str MESSAGE_CREATIVE"
    and "get_prop d ''action'' = Str ACTION_PROGRAMMATIC_STRETCH"
    and "get_prop (getConfig w) ''enabled'' \<noteq> Bool False"
    and "findAdIframe pf ev (message_adId d) (message_adUnitCode d) w = (Ok (Some iframe), w1)"
    and "slot_config_for pf d iframe w1 = (Ok slotCfg, w2)"
  shows "onMessage pf w ev =
           (case fun_ref (get_prop slotCfg ''resizeFunction'') of
              Some f \<Rightarrow>
                call_resizeFunction pf f slotCfg (message_adId d)
                  (resolveHeight w2 slotCfg d (Some iframe)) iframe ev w2
            | None \<Rightarrow>
                (case fun_ref (get_prop (getConfig w) ''resizeFunction'') of
                   Some g \<Rightarrow>
                     call_resizeFunction pf g (getConfig w) (message_adId d)
                       (resolveHeight w2 slotCfg d (Some iframe)) iframe ev w2
                 | None \<Rightarrow>
                     default_path pf iframe (message_adId d)
                       (resolveHeight w2 slotCfg d (Some iframe)) w2))"
proof -
  have t: "truthy d"
    using assms(2) by (rule get_prop_Str_truthy)
  have s: "(if truthy slotCfg then fun_ref (get_prop slotCfg ''resizeFunction'') else None)
           = fun_ref (get_prop slotCfg ''resizeFunction'')"
    by (cases slotCfg) simp_all
  show ?thesis
    using assms t by (simp add: onMessage_def Let_def s)
qed

lemma to_string_primitive:
  "is_primitive v \<Longrightarrow> to_string pf h v w = (Ok (prim_str pf v), w)"
  by (cases v) simp_all

lemma sample_parse: "parse_payload sample_platform sample_event = Some stretch_data"
  by (simp add: parse_payload_def raw_payload_def sample_event_def stretch_data_def)

text \<open>
  C5, as the code has it. For a \<open>programmaticStretch\<close> message that the handler
  takes to the resize step (the script is not disabled, the iframe is found and the
  slot configuration is looked up), when the slot configuration and the global
  configuration both have a \<open>resizeFunction\<close>, the handler invokes the slot-level
  one and nothing else, with the arguments \<open>adId\<close>, the resolved height and an
  object whose \<open>iframe\<close> property is the iframe and whose \<open>event\<close> property is
  the message event. When the call returns, the handler returns and the page is
  as the call left it; when it raises a value whose message converts to a string,
  the handler returns and the page is as the call and that conversion left it,
  with the error line added. In neither case is a default resize performed.
\<close>

theorem onMessage_slot_callback:
  assumes "parse_payload pf ev = Some d"
    and "get_prop d ''message'' = Str MESSAGE_CREATIVE"
    and "get_prop d ''action'' = Str ACTION_PROGRAMMATIC_STRETCH"
    and "get_prop (getConfig w) ''enabled'' \<noteq> Bool False"
    and "findAdIframe pf ev (message_adId d) (message_adUnitCode d) w = (Ok (Some iframe), w1)"
    and "slot_config_for pf d iframe w1 = (Ok slotCfg, w2)"
    and "get_prop slotCfg ''resizeFunction'' = Fun f"
    and "get_prop (getConfig w) ''resizeFunction'' = Fun g"
    and "args = [message_adId d, resolveHeight w2 slotCfg d (Some iframe),
                 Obj [(''iframe'', Elem iframe), (''event'', event_obj ev)]]"
  shows "invoked (onMessage pf w ev) = [(f, args)]
         \<and> (\<forall>v w3. call_fun pf f slotCfg args w2 = (Ok v, w3) \<longrightarrow>
               completion (onMessage pf w ev) = Ok () \<and> page (onMessage pf w ev) = w3)
         \<and> (\<forall>e w3 s w4. call_fun pf f slotCfg args w2 = (Throw e, w3)
               \<and> to_string pf HintDefault (js_and e (get_prop e ''message'')) w3 = (Ok s, w4) \<longrightarrow>
               completion (onMessage pf w ev) = Ok ()
               \<and> page (onMessage pf w ev) =
                   logError [''Custom resizeFunction threw: '' @ s] w4)"
proof -
  have "onMessage pf w ev =
          call_resizeFunction pf f slotCfg (message_adId d)
            (resolveHeight w2 slotCfg d (Some iframe)) iframe ev w2"
    using assms(7) by (simp add: onMessage_located [OF assms(1-6)])
  then show ?thesis
    using assms(9)
    by (auto simp: call_resizeFunction_def Let_def abort_def split: prod.splits res.splits)
qed

lemma both_callbacks_enabled:
  "get_prop (getConfig (sample_page\<lparr>programmaticStretch := both_callbacks\<rparr>)) ''enabled''
     \<noteq> Bool False"
  by (simp add: getConfig_def js_or_def both_callbacks_def)

lemma both_callbacks_iframe:
  "findAdIframe sample_platform sample_event (message_adId stretch_data)
     (message_adUnitCode stretch_data) (sample_page\<lparr>programmaticStretch := both_callbacks\<rparr>)
   = (Ok (Some 2), sample_page\<lparr>programmaticStretch := both_callbacks\<rparr>)"
  by code_simp

lemma both_callbacks_slot:
  "slot_config_for sample_platform stretch_data 2
     (sample_page\<lparr>programmaticStretch := both_callbacks\<rparr>)
   = (Ok (Obj [(''height'', Num (Fin 300)), (''resizeFunction'', Fun 2)]),
      sample_page\<lparr>programmaticStretch := both_callbacks\<rparr>)"
  by code_simp

lemma both_callbacks_global:
  "get_prop (getConfig (sample_page\<lparr>programmaticStretch := both_callbacks\<rparr>)) ''resizeFunction''
     = Fun 3"
  by (simp add: getConfig_def js_or_def both_callbacks_def)

lemma both_callbacks_args:
  "[Str ''ad-1'', Num (Fin 300), Obj [(''iframe'', Elem 2), (''event'', event_obj sample_event)]]
   = [message_adId stretch_data,
      resolveHeight (sample_page\<lparr>programmaticStretch := both_callbacks\<rparr>)
        (Obj [(''height'', Num (Fin 300)), (''resizeFunction'', Fun 2)]) stretch_data (Some 2),
      Obj [(''iframe'', Elem 2), (''event'', event_obj sample_event)]]"
  by (simp add: message_adId_def js_or_def stretch_data_def resolveHeight_def)

theorem onMessage_slot_callback_witness:
  "invoked (onMessage sample_platform (sample_page\<lparr>programmaticStretch := both_callbacks\<rparr>)
              sample_event)
     = [(2, [Str ''ad-1'', Num (Fin 300),
             Obj [(''iframe'', Elem 2), (''event'', event_obj sample_event)]])]
   \<and> completion (onMessage sample_platform (sample_page\<lparr>programmaticStretch := both_callbacks\<rparr>)
             sample_event) = Ok ()
   \<and> page (onMessage sample_platform (sample_page\<lparr>programmaticStretch := both_callbacks\<rparr>)
             sample_event)
     = sample_page\<lparr>programmaticStretch := both_callbacks\<rparr>"
proof -
  have rf: "get_prop (Obj [(''height'', Num (Fin 300)), (''resizeFunction'', Fun 2)])
          ''resizeFunction'' = Fun 2"
    by simp
  have call: "call_fun sample_platform 2
                (Obj [(''height'', Num (Fin 300)), (''resizeFunction'', Fun 2)])
                [Str ''ad-1'', Num (Fin 300),
                 Obj [(''iframe'', Elem 2), (''event'', event_obj sample_event)]]
                (sample_page\<lparr>programmaticStretch := both_callbacks\<rparr>)
              = (Ok Undefined, sample_page\<lparr>programmaticStretch := both_callbacks\<rparr>)"
    by (simp add: sample_platform_def)
  from onMessage_slot_callback [OF sample_parse sample_message sample_action
         both_callbacks_enabled both_callbacks_iframe both_callbacks_slot rf
         both_callbacks_global both_callbacks_args] call
  show ?thesis
    by blast
qed

text \<open>
  C5 as the specification states it names the third argument
  \<open>{iframe, sourceEvent}\<close>; the object the code passes has the event under
  \<open>event\<close> and no \<open>sourceEvent\<close> property.
\<close>

theorem onMessage_callback_event_key:
  "invoked (onMessage sample_platform (sample_page\<lparr>programmaticStretch := both_callbacks\<rparr>)
              sample_event)
     = [(2, [Str ''ad-1'', Num (Fin 300),
             Obj [(''iframe'', Elem 2), (''event'', event_obj sample_event)]])]
   \<and> get_prop (Obj [(''iframe'', Elem 2), (''event'', event_obj sample_event)]) ''sourceEvent''
       = Undefined
   \<and> get_prop (Obj [(''iframe'', Elem 2), (''event'', event_obj sample_event)]) ''event''
       = event_obj sample_event"
proof -
  have "onMessage sample_platform (sample_page\<lparr>programmaticStretch := both_callbacks\<rparr>)
          sample_event
        = call_resizeFunction sample_platform 2
            (Obj [(''height'', Num (Fin 300)), (''resizeFunction'', Fun 2)]) (Str ''ad-1'')
            (Num (Fin 300)) 2 sample_event
            (sample_page\<lparr>programmaticStretch := both_callbacks\<rparr>)"
    unfolding onMessage_located [OF sample_parse sample_message sample_action
                both_callbacks_enabled both_callbacks_iframe both_callbacks_slot]
    by (simp add: message_adId_def js_or_def stretch_data_def resolveHeight_def)
  then show ?thesis
    by (simp add: call_resizeFunction_def sample_platform_def)
qed

text \<open>
  C2, as the code has it. For a message that the handler takes to the resize step
  and for which a custom \<open>resizeFunction\<close> is selected (the slot's, or else the
  global one), if the call raises a value whose message converts to a string, then
  the handler returns normally, has invoked that function once and nothing else,
  and calls its error logger once: the page is the one the call and that
  conversion left, with one error line added when \<open>console.error\<close> is available
  and none when it is not. The handler itself writes no element, so no default
  resize takes place.
\<close>

theorem onMessage_callback_raises:
  assumes "parse_payload pf ev = Some d"
    and "get_prop d ''message'' = Str MESSAGE_CREATIVE"
    and "get_prop d ''action'' = Str ACTION_PROGRAMMATIC_STRETCH"
    and "get_prop (getConfig w) ''enabled'' \<noteq> Bool False"
    and "findAdIframe pf ev (message_adId d) (message_adUnitCode d) w = (Ok (Some iframe), w1)"
    and "slot_config_for pf d iframe w1 = (Ok slotCfg, w2)"
    and "args = [message_adId d, resolveHeight w2 slotCfg d (Some iframe),
                 Obj [(''iframe'', Elem iframe), (''event'', event_obj ev)]]"
    and "(get_prop slotCfg ''resizeFunction'' = Fun f \<and> this = slotCfg)
         \<or> (fun_ref (get_prop slotCfg ''resizeFunction'') = None
             \<and> get_prop (getConfig w) ''resizeFunction'' = Fun f \<and> this = getConfig w)"
    and "call_fun pf f this args w2 = (Throw e, w3)"
    and "to_string pf HintDefault (js_and e (get_prop e ''message'')) w3 = (Ok s, w4)"
  shows "onMessage pf w ev =
           \<lparr>completion = Ok (), invoked = [(f, args)],
            page = w4\<lparr>consoleOut := consoleOut w4 @
                     (if console_has w4 Error
                      then [(Error, [PREFIX, ''Custom resizeFunction threw: '' @ s])]
                      else [])\<rparr>\<rparr>"
proof -
  have "onMessage pf w ev =
          call_resizeFunction pf f this (message_adId d)
            (resolveHeight w2 slotCfg d (Some iframe)) iframe ev w2"
    using assms(8) by (auto simp: onMessage_located [OF assms(1-6)])
  then show ?thesis
    using assms(7,9,10)
    by (simp add: call_resizeFunction_def Let_def logError_def write_console_def)
qed

lemma raising_slot_enabled:
  "get_prop (getConfig (sample_page\<lparr>programmaticStretch := raising_slot_callback\<rparr>)) ''enabled''
     \<noteq> Bool False"
  by (simp add: getConfig_def js_or_def raising_slot_callback_def)

lemma raising_slot_iframe:
  "findAdIframe sample_platform sample_event (message_adId stretch_data)
     (message_adUnitCode stretch_data)
     (sample_page\<lparr>programmaticStretch := raising_slot_callback\<rparr>)
   = (Ok (Some 2), sample_page\<lparr>programmaticStretch := raising_slot_callback\<rparr>)"
  by code_simp

lemma raising_slot_config:
  "slot_config_for sample_platform stretch_data 2
     (sample_page\<lparr>programmaticStretch := raising_slot_callback\<rparr>)
   = (Ok (Obj [(''resizeFunction'', Fun 1)]),
      sample_page\<lparr>programmaticStretch := raising_slot_callback\<rparr>)"
  by code_simp

lemma raising_slot_args:
  "[Str ''ad-1'', Num (Fin 250), Obj [(''iframe'', Elem 2), (''event'', event_obj sample_event)]]
   = [message_adId stretch_data,
      resolveHeight (sample_page\<lparr>programmaticStretch := raising_slot_callback\<rparr>)
        (Obj [(''resizeFunction'', Fun 1)]) stretch_data (Some 2),
      Obj [(''iframe'', Elem 2), (''event'', event_obj sample_event)]]"
  by (simp add: message_adId_def js_or_def stretch_data_def resolveHeight_def)

theorem onMessage_callback_raises_witness:
  "onMessage sample_platform (sample_page\<lparr>programmaticStretch := raising_slot_callback\<rparr>)
     sample_event
   = \<lparr>completion = Ok (),
      invoked = [(1, [Str ''ad-1'', Num (Fin 250),
                      Obj [(''iframe'', Elem 2), (''event'', event_obj sample_event)]])],
      page = sample_page\<lparr>programmaticStretch := raising_slot_callback,
               consoleOut := [(Error, [''[ProgrammaticStretch]'',
                                       ''Custom resizeFunction threw: boom''])]\<rparr>\<rparr>"
proof -
  have sel: "(get_prop (Obj [(''resizeFunction'', Fun 1)]) ''resizeFunction'' = Fun 1
              \<and> Obj [(''resizeFunction'', Fun 1)] = Obj [(''resizeFunction'', Fun 1)])
             \<or> (fun_ref (get_prop (Obj [(''resizeFunction'', Fun 1)]) ''resizeFunction'') = None
                 \<and> get_prop (getConfig (sample_page\<lparr>programmaticStretch := raising_slot_callback\<rparr>))
                      ''resizeFunction'' = Fun 1
                 \<and> Obj [(''resizeFunction'', Fun 1)]
                     = getConfig (sample_page\<lparr>programmaticStretch := raising_slot_callback\<rparr>))"
    by simp
  have call: "call_fun sample_platform 1 (Obj [(''resizeFunction'', Fun 1)])
                [Str ''ad-1'', Num (Fin 250),
                 Obj [(''iframe'', Elem 2), (''event'', event_obj sample_event)]]
                (sample_page\<lparr>programmaticStretch := raising_slot_callback\<rparr>)
              = (Throw (Obj [(''message'', Str ''boom'')]),
                 sample_page\<lparr>programmaticStretch := raising_slot_callback\<rparr>)"
    by (simp add: sample_platform_def)
  have conv: "to_string sample_platform HintDefault
                (js_and (Obj [(''message'', Str ''boom'')])
                   (get_prop (Obj [(''message'', Str ''boom'')]) ''message''))
                (sample_page\<lparr>programmaticStretch := raising_slot_callback\<rparr>)
              = (Ok ''boom'', sample_page\<lparr>programmaticStretch := raising_slot_callback\<rparr>)"
    by (simp add: js_and_def)
  from onMessage_callback_raises [OF sample_parse sample_message sample_action
         raising_slot_enabled raising_slot_iframe raising_slot_config
         raising_slot_args sel call conv]
  show ?thesis
    by (simp add: console_has_def sample_page_def PREFIX_def)
qed

text \<open>
  C2 as the specification states it promises exactly one error line
  whenever the callback raises; on a page without \<open>console\<close> the callback is
  invoked, raises, and no line is written.
\<close>

theorem onMessage_callback_raises_no_console:
  "onMessage sample_platform
     (sample_page\<lparr>programmaticStretch := raising_global_callback, console := None\<rparr>)
     sample_event
   = \<lparr>completion = Ok (),
      invoked = [(1, [Str ''ad-1'', Num (Fin 250),
                      Obj [(''iframe'', Elem 2), (''event'', event_obj sample_event)]])],
      page = sample_page\<lparr>programmaticStretch := raising_global_callback, console := None\<rparr>\<rparr>
   \<and> consoleOut (page (onMessage sample_platform
         (sample_page\<lparr>programmaticStretch := raising_global_callback, console := None\<rparr>)
         sample_event)) = []"
proof -
  have e: "get_prop (getConfig (sample_page\<lparr>programmaticStretch := raising_global_callback,
                                           console := None\<rparr>)) ''enabled'' \<noteq> Bool False"
    by (simp add: getConfig_def js_or_def raising_global_callback_def)
  have i: "findAdIframe sample_platform sample_event (message_adId stretch_data)
             (message_adUnitCode stretch_data)
             (sample_page\<lparr>programmaticStretch := raising_global_callback, console := None\<rparr>)
           = (Ok (Some 2),
              sample_page\<lparr>programmaticStretch := raising_global_callback, console := None\<rparr>)"
    by code_simp
  have s: "slot_config_for sample_platform stretch_data 2
             (sample_page\<lparr>programmaticStretch := raising_global_callback, console := None\<rparr>)
           = (Ok Null,
              sample_page\<lparr>programmaticStretch := raising_global_callback, console := None\<rparr>)"
    by code_simp
  have g: "getConfig (sample_page\<lparr>programmaticStretch := raising_global_callback,
                                  console := None\<rparr>) = Obj [(''resizeFunction'', Fun 1)]"
    by (simp add: getConfig_def js_or_def raising_global_callback_def)
  have "onMessage sample_platform
          (sample_page\<lparr>programmaticStretch := raising_global_callback, console := None\<rparr>)
          sample_event
        = call_resizeFunction sample_platform 1 (Obj [(''resizeFunction'', Fun 1)]) (Str ''ad-1'')
            (Num (Fin 250)) 2 sample_event
            (sample_page\<lparr>programmaticStretch := raising_global_callback, console := None\<rparr>)"
    unfolding onMessage_located [OF sample_parse sample_message sample_action e i s] g
    by (simp add: message_adId_def js_or_def stretch_data_def resolveHeight_def)
  then show ?thesis
    by (simp add: call_resizeFunction_def sample_platform_def logError_def console_has_def
                  sample_page_def js_and_def)
qed

section \<open>Element lookup\<close>

lemma findIframeBySource_loop_returns: "\<exists>r. findIframeBySource_loop w ev xs = Ok r"
  by (induction xs) (auto simp: try_catch_def split: res.splits bool.splits cw.splits)

lemma findIframeBySource_returns: "\<exists>r. findIframeBySource ev w = (Ok r, w)"
  by (simp add: findIframeBySource_def findIframeBySource_loop_returns)

lemma findIframeByGptAdId_returns: "\<exists>r. findIframeByGptAdId adId w = (Ok r, w)"
  by (auto simp: findIframeByGptAdId_def try_catch_def split: res.splits googletag_api.splits)

text \<open>The first three strategies catch what they raise.\<close>

lemma findIframeByApnTag_returns: "\<exists>r w1. findIframeByApnTag pf code w = (Ok r, w1)"
  by (auto simp: findIframeByApnTag_def catching_def split: prod.splits res.splits)

text \<open>A strategy whose API is absent, or raises, finds nothing.\<close>

lemma findIframeByGptAdId_absent:
  "googletag w = GptUndefined \<or> googletag w = GptNoPubads \<or> googletag w = GptThrows x \<Longrightarrow>
   findIframeByGptAdId adId w = (Ok None, w)"
  by (auto simp: findIframeByGptAdId_def try_catch_def)

lemma findIframeByApnTag_absent:
  "apntag w = ApnUndefined \<or> apntag w = ApnNoGetTag \<or> apntag w = ApnThrows x \<Longrightarrow>
   findIframeByApnTag pf code w = (Ok None, w)"
  by (auto simp: findIframeByApnTag_def catching_def apnTag_lookup_def)

text \<open>The order of the strategies: the first that finds an iframe decides.\<close>

lemma findAdIframe_by_source:
  "findIframeBySource ev w = (Ok (Some f), w1) \<Longrightarrow>
   findAdIframe pf ev adId code w = (Ok (Some f), w1)"
  by (simp add: findAdIframe_def or_else_def)

lemma findAdIframe_by_gpt:
  "findIframeBySource ev w = (Ok None, w1) \<Longrightarrow>
   findIframeByGptAdId adId w1 = (Ok (Some f), w2) \<Longrightarrow>
   findAdIframe pf ev adId code w = (Ok (Some f), w2)"
  by (simp add: findAdIframe_def or_else_def)

lemma findAdIframe_by_apn:
  "findIframeBySource ev w = (Ok None, w1) \<Longrightarrow>
   findIframeByGptAdId adId w1 = (Ok None, w2) \<Longrightarrow>
   findIframeByApnTag pf code w2 = (Ok (Some f), w3) \<Longrightarrow>
   findAdIframe pf ev adId code w = (Ok (Some f), w3)"
  by (simp add: findAdIframe_def or_else_def)

lemma findAdIframe_by_id:
  "findIframeBySource ev w = (Ok None, w1) \<Longrightarrow>
   findIframeByGptAdId adId w1 = (Ok None, w2) \<Longrightarrow>
   findIframeByApnTag pf code w2 = (Ok None, w3) \<Longrightarrow>
   findAdIframe pf ev adId code w = findIframeById pf code w3"
  by (simp add: findAdIframe_def or_else_def)

lemma gpt_keys_loop_miss:
  "\<forall>(k, vs) \<in> set tg. \<not> indexOf_found vs adId \<Longrightarrow> gpt_keys_loop w adId elId tg = None"
  by (induction tg) auto

lemma gpt_keys_loop_hit:
  "(k, vs) \<in> set tg \<Longrightarrow> indexOf_found vs adId \<Longrightarrow> getElementById w elId = Some el \<Longrightarrow>
   gpt_keys_loop w adId elId tg = Some (querySelector_iframe w el)"
  by (induction tg) auto

lemma gpt_slots_loop_skip:
  "\<forall>s \<in> set pre. \<exists>tg elId. s = GptSlot tg elId \<and> (\<forall>(k, vs) \<in> set tg. \<not> indexOf_found vs adId) \<Longrightarrow>
   gpt_slots_loop w adId (pre @ rest) = gpt_slots_loop w adId rest"
proof (induction pre)
  case Nil
  show ?case by simp
next
  case (Cons s pre)
  then obtain tg elId where s: "s = GptSlot tg elId"
    and miss: "\<forall>(k, vs) \<in> set tg. \<not> indexOf_found vs adId"
    by auto
  from Cons have "gpt_slots_loop w adId (pre @ rest) = gpt_slots_loop w adId rest"
    by simp
  with s miss show ?case
    by (simp add: gpt_keys_loop_miss)
qed

text \<open>
  When the source window matches no frame and the \<open>adId\<close> is among the targeting
  values of a slot (the slots before it being intact and not targeting it) whose
  container is in the document and holds a visible iframe, that iframe is the
  result, whatever the \<open>adUnitCode\<close>.
\<close>

lemma findAdIframe_gpt_slot:
  assumes src: "findIframeBySource ev w = (Ok None, w)"
    and t: "truthy adId"
    and g: "googletag w = GptSlots (pre @ GptSlot tg elId # post)"
    and skip: "\<forall>s \<in> set pre. \<exists>tg' elId'. s = GptSlot tg' elId'
                            \<and> (\<forall>(k', vs') \<in> set tg'. \<not> indexOf_found vs' adId)"
    and hit: "(k, vs) \<in> set tg" "indexOf_found vs adId"
    and el: "getElementById w elId = Some el"
    and fr: "querySelector_iframe w el = Some f"
  shows "findAdIframe pf ev adId code w = (Ok (Some f), w)"
proof -
  have "gpt_slots_loop w adId (pre @ GptSlot tg elId # post) = Ok (Some f)"
    using gpt_slots_loop_skip [OF skip] gpt_keys_loop_hit [OF hit el] fr by simp
  then have "findIframeByGptAdId adId w = (Ok (Some f), w)"
    using t g by (simp add: findIframeByGptAdId_def try_catch_def)
  with src show ?thesis
    by (rule findAdIframe_by_gpt)
qed

text \<open>Each strategy in turn decides on a sample page.\<close>

lemma findAdIframe_samples:
  "findAdIframe sample_platform sample_event (Str ''ad-1'') Null sample_page
     = (Ok (Some 2), sample_page)
   \<and> findAdIframe sample_platform foreign_event (Str ''ad-1'') Null sample_page_gpt
     = (Ok (Some 2), sample_page_gpt)
   \<and> findAdIframe sample_platform foreign_event (Str ''ad-1'') (Str ''unit-1'') sample_page_apn
     = (Ok (Some 2), sample_page_apn)
   \<and> findAdIframe sample_platform foreign_event (Str ''ad-1'') (Str ''ad-slot-1'') sample_page
     = (Ok (Some 2), sample_page)
   \<and> findAdIframe sample_platform foreign_event (Str ''ad-1'') (Str ''unit-2'') sample_page_apn
     = (Ok None, sample_page_apn)"
  by code_simp

text \<open>
  The selector reads the \<open>style\<close> attribute as it is written: an iframe whose
  attribute is \<open>display:none\<close>, without the space, is still found, and one whose
  attribute is \<open>display: none\<close> is passed over.
\<close>

lemma querySelector_iframe_hidden:
  "querySelector_iframe
     (sample_page\<lparr>doc := sample_doc[2 := (sample_doc ! 2)\<lparr>styleAttr := ''display:none'',
                                         inlineStyle := [(''display'', ''none'')]\<rparr>]\<rparr>) 1
     = Some 2
   \<and> querySelector_iframe
     (sample_page\<lparr>doc := sample_doc[2 := (sample_doc ! 2)\<lparr>styleAttr := ''display: none;'',
                                         inlineStyle := [(''display'', ''none'')]\<rparr>]\<rparr>) 1
     = None"
  by code_simp

text \<open>
  C3. The resolver tries its four strategies in the order above and returns what
  the first successful one found, and its first three strategies return \<open>null\<close>
  when their API is absent or raises. But it can raise: the last strategy hands
  \<open>adUnitCode\<close> to \<open>getElementById\<close> outside any \<open>try\<close>, and the conversion
  of an \<open>adUnitCode\<close> such as \<open>{"toString": 5}\<close> to a string raises a
  \<open>TypeError\<close>. For such a message from a window that is no frame of the
  page, \<open>findAdIframe\<close> raises, with or without an ad-tag API on the page, and the
  exception leaves the handler with nothing logged.
\<close>

theorem findAdIframe_raises:
  "parse_payload sample_platform odd_code_event = Some odd_code_data
   \<and> message_adUnitCode odd_code_data = unconvertible
   \<and> findAdIframe sample_platform odd_code_event (message_adId odd_code_data)
       (message_adUnitCode odd_code_data) sample_page
     = (Throw TypeError, sample_page)
   \<and> findIframeByApnTag sample_platform unconvertible sample_page_apn
     = (Ok None, sample_page_apn)
   \<and> findAdIframe sample_platform odd_code_event (message_adId odd_code_data)
       (message_adUnitCode odd_code_data) sample_page_apn
     = (Throw TypeError, sample_page_apn)
   \<and> onMessage sample_platform sample_page odd_code_event
     = \<lparr>completion = Throw TypeError, invoked = [], page = sample_page\<rparr>"
  by code_simp

theorem findAdIframe_raises_witness:
  "completion (onMessage sample_platform sample_page odd_code_event) \<noteq> Ok ()
   \<and> consoleOut (page (onMessage sample_platform sample_page odd_code_event))
     = consoleOut sample_page"
  using findAdIframe_raises [THEN conjunct2, THEN conjunct2, THEN conjunct2, THEN conjunct2,
                             THEN conjunct2]
  by simp

section \<open>Default resize\<close>

lemma set_style_property_accepted:
  "css_parse pf p t = Some v \<Longrightarrow>
   map_of (inlineStyle (set_style_property pf p t e)) p = Some v"
  by (simp add: set_style_property_def update_conv')

lemma set_style_property_dropped:
  "css_parse pf p t = None \<Longrightarrow> set_style_property pf p t e = e"
  by (simp add: set_style_property_def)

lemma set_style_property_other:
  "p \<noteq> q \<Longrightarrow>
   map_of (inlineStyle (set_style_property pf p t e)) q = map_of (inlineStyle e) q"
  by (simp add: set_style_property_def update_conv' split: option.splits)

text \<open>
  The inline width and height after \<open>el.style.width = wc; el.style.height = hc\<close>:
  what the CSS parser made of the text, or the former value when it dropped it.
\<close>

lemma set_size_css_width:
  "map_of (inlineStyle (set_size_css pf wc hc e)) ''width'' =
     (case css_parse pf ''width'' wc of
        Some v \<Rightarrow> Some v
      | None \<Rightarrow> map_of (inlineStyle e) ''width'')"
  by (simp add: set_size_css_def set_style_property_other set_style_property_accepted
                set_style_property_dropped split: option.splits)

lemma set_size_css_height:
  "map_of (inlineStyle (set_size_css pf wc hc e)) ''height'' =
     (case css_parse pf ''height'' hc of
        Some v \<Rightarrow> Some v
      | None \<Rightarrow> map_of (inlineStyle e) ''height'')"
  by (simp add: set_size_css_def set_style_property_other set_style_property_accepted
                set_style_property_dropped split: option.splits)

lemma set_size_css_heightAttr: "heightAttr (set_size_css pf wc hc e) = heightAttr e"
  by (simp add: set_size_css_def set_style_property_def split: option.splits)

text \<open>
  The default resize for a width and a height that are numbers, \<open>null\<close> or
  \<open>undefined\<close>, as the handler passes them: it returns, has written both
  dimensions on the iframe and on its parent element, has set the \<open>width\<close>
  attribute to \<open>100%\<close> or the number, and the \<open>height\<close> attribute only when
  there is a height.
\<close>

lemma defaultResize_primitive:
  assumes "is_primitive width" and "is_primitive height" and "iframe < length (doc w)"
    and "wc = (if truthy width then prim_str pf width @ ''px'' else ''100%'')"
    and "hc = (if truthy height then prim_str pf height @ ''px'' else ''100%'')"
  shows "\<exists>w'. defaultResize pf iframe width height w = (Ok (), w')
           \<and> inlineStyle (doc w' ! iframe)
               = inlineStyle (set_size_css pf wc hc (doc w ! iframe))
           \<and> widthAttr (doc w' ! iframe)
               = Some (if truthy width then prim_str pf width else ''100%'')
           \<and> heightAttr (doc w' ! iframe)
               = (if truthy height then Some (prim_str pf height)
                  else heightAttr (doc w ! iframe))
           \<and> (\<forall>p. parentElement w iframe = Some p \<longrightarrow>
                 doc w' ! p = set_size_css pf wc hc (doc w ! p))
           \<and> consoleOut w' = consoleOut w"
proof (cases "parentElement w iframe")
  case None
  with assms show ?thesis
    by (simp add: defaultResize_def then_do_def getDimension_def to_string_primitive
                  set_width_attr_def set_height_attr_def update_element_def
                  set_size_css_heightAttr)
next
  case (Some p)
  then have "p < iframe" by (rule parentElement_less)
  with Some assms show ?thesis
    by (simp add: defaultResize_def then_do_def getDimension_def to_string_primitive
                  set_width_attr_def set_height_attr_def update_element_def
                  set_size_css_heightAttr)
qed

text \<open>
  C8. On the default path the handler is to set both width and height as inline
  CSS on the iframe and on its parent. For a message whose height is written
  \<open>1e999\<close> it does not: the height resolves to \<open>Infinity\<close>, the handler assigns
  \<open>Infinitypx\<close>, which is no CSS value and is dropped, so the width is written
  and the height is not, on the iframe and on its parent, while the \<open>height\<close>
  attribute becomes \<open>Infinity\<close>.
\<close>

theorem defaultResize_infinite_height:
  "parse_payload sample_platform huge_event = Some huge_data
   \<and> resolveHeight sample_page Null huge_data (Some 2) = Num PosInf
   \<and> getDimension sample_platform (Num PosInf) sample_page = (Ok ''Infinitypx'', sample_page)
   \<and> completion (onMessage sample_platform sample_page huge_event) = Ok ()
   \<and> invoked (onMessage sample_platform sample_page huge_event) = []
   \<and> map_of (inlineStyle (doc (page (onMessage sample_platform sample_page huge_event)) ! 2))
       ''width'' = Some ''100%''
   \<and> map_of (inlineStyle (doc (page (onMessage sample_platform sample_page huge_event)) ! 2))
       ''height'' = None
   \<and> map_of (inlineStyle (doc (page (onMessage sample_platform sample_page huge_event)) ! 1))
       ''width'' = Some ''100%''
   \<and> map_of (inlineStyle (doc (page (onMessage sample_platform sample_page huge_event)) ! 1))
       ''height'' = None
   \<and> widthAttr (doc (page (onMessage sample_platform sample_page huge_event)) ! 2)
       = Some ''100%''
   \<and> heightAttr (doc (page (onMessage sample_platform sample_page huge_event)) ! 2)
       = Some ''Infinity''"
  by code_simp

theorem defaultResize_infinite_height_witness:
  "map_of (inlineStyle (doc (page (onMessage sample_platform sample_page huge_event)) ! 2))
     ''height'' \<noteq> Some ''Infinitypx''"
  using defaultResize_infinite_height [THEN conjunct2, THEN conjunct2, THEN conjunct2,
                                       THEN conjunct2, THEN conjunct2, THEN conjunct2,
                                       THEN conjunct1]
  by simp

text \<open>
  With a finite height the same page is resized as described: width \<open>100%\<close>
  and height \<open>250px\<close> on the iframe and on its parent, the attributes \<open>100%\<close>
  and \<open>250\<close>.
\<close>

lemma defaultResize_sample:
  "completion (onMessage sample_platform sample_page sample_event) = Ok ()
   \<and> inlineStyle (doc (page (onMessage sample_platform sample_page sample_event)) ! 2)
       = [(''width'', ''100%''), (''height'', ''250px'')]
   \<and> inlineStyle (doc (page (onMessage sample_platform sample_page sample_event)) ! 1)
       = [(''width'', ''100%''), (''height'', ''250px'')]
   \<and> doc (page (onMessage sample_platform sample_page sample_event)) ! 0 = sample_doc ! 0
   \<and> widthAttr (doc (page (onMessage sample_platform sample_page sample_event)) ! 2)
       = Some ''100%''
   \<and> heightAttr (doc (page (onMessage sample_platform sample_page sample_event)) ! 2)
       = Some ''250''"
  by code_simp

text \<open>
  A second way in which the default path is left: with slots configured, the
  lookup of the slot configuration converts an \<open>adUnitCode\<close> that has no usable
  conversion, and the \<open>TypeError\<close> leaves the handler before anything is resized.
\<close>

lemma slot_lookup_raises:
  "onMessage sample_platform (sample_page\<lparr>programmaticStretch := fixed_height_slot\<rparr>)
     (odd_code_event\<lparr>ev_source := Win 7\<rparr>)
   = \<lparr>completion = Throw TypeError, invoked = [],
      page = sample_page\<lparr>programmaticStretch := fixed_height_slot\<rparr>\<rparr>"
  by code_simp

text \<open>
  And a way in which the handler of the \<open>try\<close> around a custom resize function
  is left: function \<open>4\<close> raises a value whose \<open>message\<close> has no usable
  conversion, the concatenation in the handler raises, and the \<open>TypeError\<close>
  leaves \<open>onMessage\<close> with nothing logged.
\<close>

lemma catch_block_raises:
  "onMessage sample_platform
     (sample_page\<lparr>programmaticStretch := Obj [(''resizeFunction'', Fun 4)]\<rparr>) sample_event
   = \<lparr>completion = Throw TypeError,
      invoked = [(4, [Str ''ad-1'', Num (Fin 250),
                      Obj [(''iframe'', Elem 2), (''event'', event_obj sample_event)]])],
      page = sample_page\<lparr>programmaticStretch := Obj [(''resizeFunction'', Fun 4)]\<rparr>\<rparr>"
  by code_simp

end
